theory Spec2Isabelle
  imports Main "HOL-Library.Finite_Map"
begin

section \<open>Data model of \<^verbatim>\<open>static/js/app.js\<close>\<close>

type_synonym session_id = string
type_synonym container_id = string

text \<open>A thrown JavaScript \<^verbatim>\<open>Error\<close>, identified by its message.\<close>

datatype exn = Error string

text \<open>Events sent to the backend with \<^verbatim>\<open>socket.emit\<close>.\<close>

datatype event =
    terminal_input session_id string
  | terminal_resize session_id nat nat
  | terminal_create session_id
  | terminal_close session_id
  | execute_tool string string

text \<open>
  The chronological record of the calls the program makes on its collaborators (xterm
  emulators, resize observers, the registry map, the socket, \<^verbatim>\<open>fetch\<close>).  Emulators and
  observers are objects on the JavaScript heap; they are referred to by handles.
\<close>

datatype action =
    New_Terminal nat
  | Open_Terminal nat container_id
  | New_Observer nat
  | Observe nat container_id
  | Registry_Set session_id
  | Registry_Delete session_id
  | Dispose nat
  | Disconnect nat
  | Term_Write nat string
  | Emit event
  | Http_Get string
  | Http_Post string string

text \<open>An xterm.js \<^verbatim>\<open>Terminal\<close> object; \<open>onData\<close> holds the session ids captured by the
  listeners registered with \<^verbatim>\<open>terminal.onData\<close>.\<close>

record xterm =
  opened :: "container_id option"
  disposed :: bool
  written :: "string list"
  onData :: "session_id list"
  rows :: nat
  cols :: nat

text \<open>A \<^verbatim>\<open>ResizeObserver\<close>; its callback has captured the session id and the terminal.\<close>

record resize_observer =
  target :: "container_id option"
  connected :: bool
  cb_session :: session_id
  cb_terminal :: nat

text \<open>The value stored in \<^verbatim>\<open>TerminalManager.terminals\<close>.  The fit addon belongs to its
  terminal and is not a separate object of the model.\<close>

record terminal_data =
  terminal :: nat
  resizeObserver :: nat

text \<open>An element of \<^verbatim>\<open>activeTerminals\<close>.\<close>

record active_terminal =
  sessionId :: session_id
  title :: string
  minimized :: bool

text \<open>An element of \<^verbatim>\<open>notifications\<close>: \<^verbatim>\<open>{ id, message, type }\<close>.\<close>

record notification =
  nid :: nat
  message :: string
  ntype :: string

record tool =
  tool_name :: string
  installed :: bool

record session =
  session_no :: int
  active :: bool

text \<open>The closures handed to \<^verbatim>\<open>this.$nextTick\<close>, with the variables they capture
  (\<^verbatim>\<open>sessionId\<close>, \<^verbatim>\<open>terminalId\<close>, \<^verbatim>\<open>toolName\<close>).\<close>

datatype task =
    Exec_Task session_id container_id string
  | Install_Task session_id container_id string
  | Remove_Task session_id container_id string

text \<open>The closure handed to \<^verbatim>\<open>setTimeout\<close> by \<^verbatim>\<open>showNotification\<close>, with the captured id.\<close>

datatype timer_task = Remove_Notification nat

text \<open>
  What \<^verbatim>\<open>await fetch(url)\<close> followed by \<^verbatim>\<open>response.json()\<close> can do: the fetch rejects, or
  it resolves to a response with a status code whose body parses to a value or does not.
\<close>

datatype 'a fetch_result = Rejects | Responds nat "'a option"

text \<open>
  The whole state: the registry of \<^verbatim>\<open>TerminalManager\<close>, the fields of the Vue
  \<^verbatim>\<open>data()\<close> object that the methods below touch, and the environment (heap objects, DOM,
  pending callbacks, clock).
\<close>

record app =
  terminals :: "(session_id, terminal_data) fmap"
  activeView :: string
  loading :: bool
  tools :: "tool list"
  sessions :: "session list"
  categories :: "string list"
  showToolModal :: bool
  showSessionModal :: bool
  selectedTool :: "tool option"
  selectedSession :: "session option"
  executionMode :: string
  activeTerminals :: "active_terminal list"
  notifications :: "notification list"
  notificationId :: nat
  emus :: "nat \<Rightarrow> xterm"
  next_emu :: nat
  observers :: "nat \<Rightarrow> resize_observer"
  next_obs :: nat
  containers :: "container_id list"
  dispose_fault :: "nat \<Rightarrow> exn option"
  trace :: "action list"
  next_tick :: "task list"
  timers :: "(nat \<times> timer_task) list"
  clock :: nat
  unhandled :: "exn list"

text \<open>How a call ends: it returns, or it throws; either way the mutations made so far
  stay.\<close>

datatype completion = Normal app | Throw exn app

fun state_of :: "completion \<Rightarrow> app" where
  "state_of (Normal s) = s"
| "state_of (Throw e s) = s"

fun thrown :: "completion \<Rightarrow> exn option" where
  "thrown (Normal s) = None"
| "thrown (Throw e s) = Some e"

fun emitted :: "action list \<Rightarrow> event list" where
  "emitted [] = []"
| "emitted (Emit e # as) = e # emitted as"
| "emitted (a # as) = emitted as"

definition fresh_xterm :: xterm where
  "fresh_xterm = \<lparr>opened = None, disposed = False, written = [], onData = [], rows = 24, cols = 80\<rparr>"

definition no_observer :: resize_observer where
  "no_observer = \<lparr>target = None, connected = False, cb_session = [], cb_terminal = 0\<rparr>"

section \<open>Primitive effects\<close>

definition record_action :: "action \<Rightarrow> app \<Rightarrow> app" where
  "record_action a s = s\<lparr>trace := trace s @ [a]\<rparr>"

definition socket_emit :: "event \<Rightarrow> app \<Rightarrow> app" where
  "socket_emit e s = record_action (Emit e) s"

text \<open>\<^verbatim>\<open>new Terminal({...})\<close> with its two addons loaded.\<close>

definition new_Terminal :: "app \<Rightarrow> nat \<times> app" where
  "new_Terminal s =
     (let t = next_emu s
      in (t, record_action (New_Terminal t)
               (s\<lparr>next_emu := Suc t, emus := (emus s)(t := fresh_xterm)\<rparr>)))"

text \<open>\<^verbatim>\<open>document.getElementById(containerId)\<close>: \<open>None\<close> is JavaScript's \<^verbatim>\<open>null\<close>.\<close>

definition getElementById :: "container_id \<Rightarrow> app \<Rightarrow> container_id option" where
  "getElementById cid s = (if cid \<in> set (containers s) then Some cid else None)"

text \<open>\<^verbatim>\<open>terminal.open(container); fitAddon.fit()\<close>\<close>

definition open_terminal :: "nat \<Rightarrow> container_id \<Rightarrow> app \<Rightarrow> app" where
  "open_terminal t c s =
     record_action (Open_Terminal t c) (s\<lparr>emus := (emus s)(t := (emus s t)\<lparr>opened := Some c\<rparr>)\<rparr>)"

definition add_onData :: "nat \<Rightarrow> session_id \<Rightarrow> app \<Rightarrow> app" where
  "add_onData t sid s = s\<lparr>emus := (emus s)(t := (emus s t)\<lparr>onData := onData (emus s t) @ [sid]\<rparr>)\<rparr>"

text \<open>\<^verbatim>\<open>new ResizeObserver(callback)\<close> followed by \<^verbatim>\<open>resizeObserver.observe(container)\<close>\<close>

definition new_ResizeObserver :: "session_id \<Rightarrow> nat \<Rightarrow> app \<Rightarrow> nat \<times> app" where
  "new_ResizeObserver sid t s =
     (let ob = next_obs s
      in (ob, record_action (New_Observer ob)
                (s\<lparr>next_obs := Suc ob,
                   observers := (observers s)(ob :=
                     \<lparr>target = None, connected = False, cb_session = sid, cb_terminal = t\<rparr>)\<rparr>)))"

definition observe :: "nat \<Rightarrow> container_id \<Rightarrow> app \<Rightarrow> app" where
  "observe ob c s =
     record_action (Observe ob c)
       (s\<lparr>observers := (observers s)(ob := (observers s ob)\<lparr>target := Some c, connected := True\<rparr>)\<rparr>)"

text \<open>\<^verbatim>\<open>terminal.dispose()\<close>.  Whether the library call throws is not decided by this
  program; the environment field \<open>dispose_fault\<close> says so for each emulator.\<close>

definition dispose :: "nat \<Rightarrow> app \<Rightarrow> completion" where
  "dispose t s =
     (case dispose_fault s t of
        Some e \<Rightarrow> Throw e (record_action (Dispose t) s)
      | None \<Rightarrow> Normal (record_action (Dispose t)
                         (s\<lparr>emus := (emus s)(t := (emus s t)\<lparr>disposed := True\<rparr>)\<rparr>)))"

definition disconnect :: "nat \<Rightarrow> app \<Rightarrow> app" where
  "disconnect ob s =
     record_action (Disconnect ob)
       (s\<lparr>observers := (observers s)(ob := (observers s ob)\<lparr>connected := False\<rparr>)\<rparr>)"

definition terminal_write :: "nat \<Rightarrow> string \<Rightarrow> app \<Rightarrow> app" where
  "terminal_write t d s =
     record_action (Term_Write t d)
       (s\<lparr>emus := (emus s)(t := (emus s t)\<lparr>written := written (emus s t) @ [d]\<rparr>)\<rparr>)"

definition registry_set :: "session_id \<Rightarrow> terminal_data \<Rightarrow> app \<Rightarrow> app" where
  "registry_set sid td s =
     record_action (Registry_Set sid) (s\<lparr>terminals := fmupd sid td (terminals s)\<rparr>)"

definition registry_delete :: "session_id \<Rightarrow> app \<Rightarrow> app" where
  "registry_delete sid s =
     record_action (Registry_Delete sid) (s\<lparr>terminals := fmdrop sid (terminals s)\<rparr>)"

section \<open>\<^verbatim>\<open>class TerminalManager\<close>\<close>

text \<open>
  \<^verbatim>\<open>createTerminal(sessionId, containerId)\<close>: the emulator is constructed first, then the
  container is looked up, and a missing container throws.
\<close>

definition createTerminal :: "session_id \<Rightarrow> container_id \<Rightarrow> app \<Rightarrow> completion" where
  "createTerminal sid cid s =
     (let (t, s1) = new_Terminal s
      in case getElementById cid s1 of
           None \<Rightarrow> Throw (Error (''Container '' @ cid @ '' not found'')) s1
         | Some container \<Rightarrow>
             (let s2 = open_terminal t container s1;
                  s3 = add_onData t sid s2;
                  (ob, s4) = new_ResizeObserver sid t s3;
                  s5 = observe ob container s4;
                  s6 = registry_set sid \<lparr>terminal = t, resizeObserver = ob\<rparr> s5
              in Normal (socket_emit (terminal_create sid) s6)))"

text \<open>\<^verbatim>\<open>closeTerminal(sessionId)\<close> of the manager.\<close>

definition closeTerminal :: "session_id \<Rightarrow> app \<Rightarrow> completion" where
  "closeTerminal sid s =
     (case fmlookup (terminals s) sid of
        None \<Rightarrow> Normal s
      | Some terminalData \<Rightarrow>
          (case dispose (terminal terminalData) s of
             Throw e s1 \<Rightarrow> Throw e s1
           | Normal s1 \<Rightarrow>
               (let s2 = disconnect (resizeObserver terminalData) s1;
                    s3 = registry_delete sid s2
                in Normal (socket_emit (terminal_close sid) s3))))"

text \<open>\<^verbatim>\<open>write(sessionId, data)\<close> (\<open>write\<close> is a keyword of Isabelle, hence the name)\<close>

definition write_data :: "session_id \<Rightarrow> string \<Rightarrow> app \<Rightarrow> completion" where
  "write_data sid d s =
     (case fmlookup (terminals s) sid of
        None \<Rightarrow> Normal s
      | Some terminalData \<Rightarrow> Normal (terminal_write (terminal terminalData) d s))"

text \<open>The callbacks registered by \<^verbatim>\<open>createTerminal\<close>: a keystroke on emulator \<open>t\<close>, and a
  size change seen by observer \<open>ob\<close> (which refits the terminal to \<open>r\<close> rows, \<open>c\<close> columns).\<close>

definition key_input :: "nat \<Rightarrow> string \<Rightarrow> app \<Rightarrow> app" where
  "key_input t d s =
     (if disposed (emus s t) then s
      else fold (\<lambda>sid. socket_emit (terminal_input sid d)) (onData (emus s t)) s)"

definition surface_resized :: "nat \<Rightarrow> nat \<Rightarrow> nat \<Rightarrow> app \<Rightarrow> app" where
  "surface_resized ob r c s =
     (if \<not> connected (observers s ob) then s
      else let t = cb_terminal (observers s ob);
               s1 = s\<lparr>emus := (emus s)(t := (emus s t)\<lparr>rows := r, cols := c\<rparr>)\<rparr>
           in socket_emit (terminal_resize (cb_session (observers s ob))
                             (rows (emus s1 t)) (cols (emus s1 t))) s1)"

section \<open>Sequencing and \<^verbatim>\<open>try\<close>/\<^verbatim>\<open>catch\<close>\<close>

fun and_then :: "completion \<Rightarrow> (app \<Rightarrow> completion) \<Rightarrow> completion" where
  "and_then (Normal s) f = f s"
| "and_then (Throw e s) f = Throw e s"

fun try_catch :: "completion \<Rightarrow> (exn \<Rightarrow> app \<Rightarrow> completion) \<Rightarrow> completion" where
  "try_catch (Normal s) h = Normal s"
| "try_catch (Throw e s) h = h e s"

text \<open>The text of \<^verbatim>\<open>${error}\<close> for an \<^verbatim>\<open>Error\<close> object.\<close>

fun exn_string :: "exn \<Rightarrow> string" where
  "exn_string (Error m) = ''Error: '' @ m"

text \<open>Decimal digits of a number, as template literals print \<^verbatim>\<open>Date.now()\<close>.\<close>

fun show_nat :: "nat \<Rightarrow> string" where
  "show_nat n =
     (if n < 10 then [''0123456789'' ! n]
      else show_nat (n div 10) @ [''0123456789'' ! (n mod 10)])"

declare show_nat.simps [simp del]

section \<open>The Vue application: notifications\<close>

text \<open>
  \<^verbatim>\<open>this.notificationId++\<close> on a JavaScript number (an IEEE double): adding 1 is exact
  below \<open>2^53\<close>, and \<open>2^53 + 1\<close> rounds back to \<open>2^53\<close>, the only value from \<open>2^53\<close> on
  that a counter started at 0 can reach.
\<close>

definition js_incr :: "nat \<Rightarrow> nat" where
  "js_incr n = (if n < 2 ^ 53 then n + 1 else n)"

definition showNotification :: "string \<Rightarrow> string \<Rightarrow> app \<Rightarrow> app" where
  "showNotification msg ty s =
     (let i = notificationId s;
          s1 = s\<lparr>notificationId := js_incr i\<rparr>;
          s2 = s1\<lparr>notifications := notifications s1 @ [\<lparr>nid = i, message = msg, ntype = ty\<rparr>]\<rparr>
      in s2\<lparr>timers := timers s2 @ [(clock s2 + 3000, Remove_Notification i)]\<rparr>)"

text \<open>The timer callback: \<^verbatim>\<open>this.notifications = this.notifications.filter(n => n.id !== id)\<close>\<close>

fun fire :: "timer_task \<Rightarrow> app \<Rightarrow> app" where
  "fire (Remove_Notification i) s =
     s\<lparr>notifications := filter (\<lambda>n. nid n \<noteq> i) (notifications s)\<rparr>"

text \<open>Time passes until the clock reads \<open>T\<close> milliseconds: the timers due by then run, in
  the order of their due times.\<close>

definition advance :: "nat \<Rightarrow> app \<Rightarrow> app" where
  "advance T s =
     (if T < clock s then s
      else let due = filter (\<lambda>(d, k). d \<le> T) (timers s);
               later = filter (\<lambda>(d, k). \<not> d \<le> T) (timers s)
           in fold fire (map snd (sort_key fst due)) (s\<lparr>timers := later, clock := T\<rparr>))"

section \<open>The Vue application: \<^verbatim>\<open>fetchData\<close>\<close>

text \<open>\<^verbatim>\<open>response.ok\<close>\<close>

definition response_ok :: "nat \<Rightarrow> bool" where
  "response_ok status = (200 \<le> status \<and> status \<le> 299)"

text \<open>The bodies of the three inner \<^verbatim>\<open>try\<close> blocks.\<close>

definition fetch_tools :: "tool list fetch_result \<Rightarrow> app \<Rightarrow> completion" where
  "fetch_tools r s =
     (let s1 = record_action (Http_Get ''/api/tools'') s
      in case r of
           Rejects \<Rightarrow> Throw (Error ''Failed to fetch'') s1
         | Responds status body \<Rightarrow>
             if response_ok status then
               (case body of
                  None \<Rightarrow> Throw (Error ''Unexpected end of JSON input'') s1
                | Some v \<Rightarrow> Normal (s1\<lparr>tools := v\<rparr>))
             else Normal (s1\<lparr>tools := []\<rparr>))"

definition fetch_categories :: "string list fetch_result \<Rightarrow> app \<Rightarrow> completion" where
  "fetch_categories r s =
     (let s1 = record_action (Http_Get ''/api/categories'') s
      in case r of
           Rejects \<Rightarrow> Throw (Error ''Failed to fetch'') s1
         | Responds status body \<Rightarrow>
             if response_ok status then
               (case body of
                  None \<Rightarrow> Throw (Error ''Unexpected end of JSON input'') s1
                | Some v \<Rightarrow> Normal (s1\<lparr>categories := v\<rparr>))
             else Normal (s1\<lparr>categories := []\<rparr>))"

definition fetch_sessions :: "session list fetch_result \<Rightarrow> app \<Rightarrow> completion" where
  "fetch_sessions r s =
     (let s1 = record_action (Http_Get ''/api/sessions'') s
      in case r of
           Rejects \<Rightarrow> Throw (Error ''Failed to fetch'') s1
         | Responds status body \<Rightarrow>
             if response_ok status then
               (case body of
                  None \<Rightarrow> Throw (Error ''Unexpected end of JSON input'') s1
                | Some v \<Rightarrow> Normal (s1\<lparr>sessions := v\<rparr>))
             else Normal (s1\<lparr>sessions := []\<rparr>))"

text \<open>\<^verbatim>\<open>fetchData\<close>: three inner \<^verbatim>\<open>try\<close>/\<^verbatim>\<open>catch\<close> statements inside an outer one.\<close>

definition fetchData ::
  "tool list fetch_result \<Rightarrow> string list fetch_result \<Rightarrow> session list fetch_result \<Rightarrow>
   app \<Rightarrow> completion" where
  "fetchData rt rc rs s =
     try_catch
       (and_then (try_catch (fetch_tools rt s) (\<lambda>e s'. Normal (s'\<lparr>tools := []\<rparr>)))
         (\<lambda>s1. and_then (try_catch (fetch_categories rc s1) (\<lambda>e s'. Normal (s'\<lparr>categories := []\<rparr>)))
           (\<lambda>s2. and_then (try_catch (fetch_sessions rs s2) (\<lambda>e s'. Normal (s'\<lparr>sessions := []\<rparr>)))
             (\<lambda>s3. Normal (s3\<lparr>loading := False\<rparr>)))))
       (\<lambda>error s'.
          Normal ((showNotification ''Some data could not be loaded'' ''warning'' s')\<lparr>loading := False\<rparr>))"

section \<open>The Vue application: tools and terminals\<close>

text \<open>\<^verbatim>\<open>this.$nextTick(callback)\<close> queues the callback.\<close>

definition nextTick :: "task \<Rightarrow> app \<Rightarrow> app" where
  "nextTick t s = s\<lparr>next_tick := next_tick s @ [t]\<rparr>"

definition push_terminal :: "session_id \<Rightarrow> string \<Rightarrow> app \<Rightarrow> app" where
  "push_terminal sid ttl s =
     s\<lparr>activeTerminals := activeTerminals s @ [\<lparr>sessionId = sid, title = ttl, minimized = False\<rparr>]\<rparr>"

text \<open>The synchronous parts of \<^verbatim>\<open>executeTool\<close>, \<^verbatim>\<open>installTool\<close> and \<^verbatim>\<open>removeTool\<close>; \<open>now\<close>
  is the value of \<^verbatim>\<open>Date.now()\<close>.\<close>

definition executeTool :: "string \<Rightarrow> nat \<Rightarrow> app \<Rightarrow> completion" where
  "executeTool toolName now s =
     try_catch
       (let sid = ''tool_'' @ toolName @ ''_'' @ show_nat now;
            terminalId = ''terminal-'' @ sid;
            s1 = push_terminal sid (toolName @ '' - '' @ executionMode s @ '' mode'') s;
            s2 = s1\<lparr>showToolModal := False\<rparr>
        in Normal (nextTick (Exec_Task sid terminalId toolName) s2))
       (\<lambda>error s'. Normal (showNotification (''Error executing tool: '' @ exn_string error) ''error'' s'))"

definition installTool :: "string \<Rightarrow> nat \<Rightarrow> app \<Rightarrow> completion" where
  "installTool toolName now s =
     try_catch
       (let sid = ''install_'' @ toolName @ ''_'' @ show_nat now;
            terminalId = ''terminal-'' @ sid;
            s1 = push_terminal sid (''Installing '' @ toolName) s
        in Normal (nextTick (Install_Task sid terminalId toolName) s1))
       (\<lambda>error s'. Normal (showNotification (''Error installing tool: '' @ exn_string error) ''error'' s'))"

definition removeTool :: "string \<Rightarrow> nat \<Rightarrow> app \<Rightarrow> completion" where
  "removeTool toolName now s =
     try_catch
       (let sid = ''remove_'' @ toolName @ ''_'' @ show_nat now;
            terminalId = ''terminal-'' @ sid;
            s1 = push_terminal sid (''Removing '' @ toolName) s
        in Normal (nextTick (Remove_Task sid terminalId toolName) s1))
       (\<lambda>error s'. Normal (showNotification (''Error removing tool: '' @ exn_string error) ''error'' s'))"

text \<open>The replies of the backend to the requests one callback makes: to the
  \<^verbatim>\<open>POST /api/tool/{name}\<close> and to the three requests of \<^verbatim>\<open>fetchData\<close>.\<close>

record replies =
  r_post :: "unit fetch_result"
  r_tools :: "tool list fetch_result"
  r_categories :: "string list fetch_result"
  r_sessions :: "session list fetch_result"

text \<open>\<^verbatim>\<open>await fetch(`/api/tool/${toolName}`, {method: 'POST', ...})\<close> and the check of
  \<^verbatim>\<open>response.ok\<close> that follows it.\<close>

definition post_tool :: "string \<Rightarrow> string \<Rightarrow> string \<Rightarrow> unit fetch_result \<Rightarrow> app \<Rightarrow> completion" where
  "post_tool toolName act failure r s =
     (let s1 = record_action (Http_Post (''/api/tool/'' @ toolName) act) s
      in case r of
           Rejects \<Rightarrow> Throw (Error ''Failed to fetch'') s1
         | Responds status body \<Rightarrow>
             if \<not> response_ok status then Throw (Error failure) s1 else Normal s1)"

text \<open>The bodies of the three \<^verbatim>\<open>async () => {...}\<close> callbacks.  A throw inside one rejects
  the promise of the callback.\<close>

fun run_task :: "task \<Rightarrow> replies \<Rightarrow> app \<Rightarrow> completion" where
  "run_task (Exec_Task sid terminalId toolName) rp s =
     and_then (createTerminal sid terminalId s)
       (\<lambda>s1. Normal (socket_emit (execute_tool toolName (executionMode s1)) s1))"
| "run_task (Install_Task sid terminalId toolName) rp s =
     and_then (createTerminal sid terminalId s)
       (\<lambda>s1. and_then (post_tool toolName ''install'' ''Installation failed'' (r_post rp) s1)
         (fetchData (r_tools rp) (r_categories rp) (r_sessions rp)))"
| "run_task (Remove_Task sid terminalId toolName) rp s =
     and_then (createTerminal sid terminalId s)
       (\<lambda>s1. and_then (post_tool toolName ''remove'' ''Removal failed'' (r_post rp) s1)
         (fetchData (r_tools rp) (r_categories rp) (r_sessions rp)))"

text \<open>The next tick: the oldest queued callback runs.  Nothing awaits or catches the
  promise it returns, so a rejection stays unhandled.\<close>

definition tick :: "replies \<Rightarrow> app \<Rightarrow> app" where
  "tick rp s =
     (case next_tick s of
        [] \<Rightarrow> s
      | t # ts \<Rightarrow>
          (case run_task t rp (s\<lparr>next_tick := ts\<rparr>) of
             Normal s' \<Rightarrow> s'
           | Throw e s' \<Rightarrow> s'\<lparr>unhandled := unhandled s' @ [e]\<rparr>))"

text \<open>\<^verbatim>\<open>Array.prototype.findIndex\<close> and \<^verbatim>\<open>splice(index, 1)\<close> for an index that was found.\<close>

fun findIndex :: "('a \<Rightarrow> bool) \<Rightarrow> 'a list \<Rightarrow> int" where
  "findIndex P [] = - 1"
| "findIndex P (x # xs) =
     (if P x then 0 else (let i = findIndex P xs in if i = - 1 then - 1 else i + 1))"

definition splice1 :: "int \<Rightarrow> 'a list \<Rightarrow> 'a list" where
  "splice1 i xs = take (nat i) xs @ drop (Suc (nat i)) xs"

text \<open>\<^verbatim>\<open>closeTerminal(sessionId)\<close> of the application.\<close>

definition app_closeTerminal :: "session_id \<Rightarrow> app \<Rightarrow> completion" where
  "app_closeTerminal sid s =
     and_then (closeTerminal sid s)
       (\<lambda>s1. let index = findIndex (\<lambda>t. sessionId t = sid) (activeTerminals s1)
             in if index \<noteq> - 1
                then Normal (s1\<lparr>activeTerminals := splice1 index (activeTerminals s1)\<rparr>)
                else Normal s1)"

fun flip_first :: "session_id \<Rightarrow> active_terminal list \<Rightarrow> active_terminal list" where
  "flip_first sid [] = []"
| "flip_first sid (t # ts) =
     (if sessionId t = sid then t\<lparr>minimized := \<not> minimized t\<rparr> # ts else t # flip_first sid ts)"

definition minimizeTerminal :: "session_id \<Rightarrow> app \<Rightarrow> app" where
  "minimizeTerminal sid s = s\<lparr>activeTerminals := flip_first sid (activeTerminals s)\<rparr>"

text \<open>The remaining methods: \<^verbatim>\<open>toggleView\<close>, \<^verbatim>\<open>closeModals\<close>, \<^verbatim>\<open>getToolDetails\<close> and
  \<^verbatim>\<open>getSessionDetails\<close>.\<close>

definition toggleView :: "string \<Rightarrow> app \<Rightarrow> app" where
  "toggleView view s = s\<lparr>activeView := view\<rparr>"

definition closeModals :: "app \<Rightarrow> app" where
  "closeModals s = s\<lparr>showToolModal := False, showSessionModal := False\<rparr>"

definition getToolDetails :: "string \<Rightarrow> app \<Rightarrow> app" where
  "getToolDetails toolName s =
     (case find (\<lambda>t. tool_name t = toolName) (tools s) of
        None \<Rightarrow> s
      | Some t \<Rightarrow> s\<lparr>selectedTool := Some t, showToolModal := True\<rparr>)"

definition getSessionDetails :: "int \<Rightarrow> app \<Rightarrow> app" where
  "getSessionDetails n s =
     (case find (\<lambda>x. session_no x = n) (sessions s) of
        None \<Rightarrow> s
      | Some x \<Rightarrow> s\<lparr>selectedSession := Some x, showSessionModal := True\<rparr>)"

definition toggleExecutionMode :: "app \<Rightarrow> app" where
  "toggleExecutionMode s =
     s\<lparr>executionMode := (if executionMode s = ''direct'' then ''guided'' else ''direct'')\<rparr>"

section \<open>Socket handlers registered by \<^verbatim>\<open>initializeSocket\<close>\<close>

definition on_terminal_output :: "session_id \<Rightarrow> string \<Rightarrow> app \<Rightarrow> completion" where
  "on_terminal_output sid output s = write_data sid output s"

definition on_terminal_created :: "session_id \<Rightarrow> app \<Rightarrow> completion" where
  "on_terminal_created sid s = Normal s"

definition on_terminal_closed :: "session_id \<Rightarrow> app \<Rightarrow> completion" where
  "on_terminal_closed sid s = app_closeTerminal sid s"

definition on_terminal_error :: "string \<Rightarrow> app \<Rightarrow> completion" where
  "on_terminal_error err s = Normal (showNotification err ''error'' s)"

section \<open>Runs of the application\<close>

text \<open>The state after \<^verbatim>\<open>data()\<close>, before any emulator or observer exists, with the given
  behaviour of \<^verbatim>\<open>dispose\<close>.\<close>

definition init_app :: "(nat \<Rightarrow> exn option) \<Rightarrow> app" where
  "init_app faults =
     \<lparr>terminals = fmempty, activeView = ''dashboard'', loading = True, tools = [],
      sessions = [], categories = [], showToolModal = False, showSessionModal = False,
      selectedTool = None, selectedSession = None, executionMode = ''guided'',
      activeTerminals = [],
      notifications = [], notificationId = 0,
      emus = (\<lambda>t. fresh_xterm), next_emu = 0,
      observers = (\<lambda>ob. no_observer), next_obs = 0,
      containers = [], dispose_fault = faults, trace = [], next_tick = [], timers = [],
      clock = 0, unhandled = []\<rparr>"

text \<open>What can happen to the page: events from the backend, calls of the methods by the
  user interface, a poll, the next tick, time passing, keystrokes and resizes, and the DOM
  being re-rendered.\<close>

datatype input =
    Socket_connect
  | Socket_terminal_output session_id string
  | Socket_terminal_created session_id
  | Socket_terminal_closed session_id
  | Socket_terminal_error string
  | User_executeTool string nat
  | User_installTool string nat
  | User_removeTool string nat
  | User_closeTerminal session_id
  | User_minimizeTerminal session_id
  | User_toggleExecutionMode
  | User_toggleView string
  | User_closeModals
  | User_getToolDetails string
  | User_getSessionDetails int
  | Poll "tool list fetch_result" "string list fetch_result" "session list fetch_result"
  | Next_Tick replies
  | Time_Passes nat
  | Keystroke nat string
  | Surface_Resized nat nat nat
  | Dom_Rendered "container_id list"

text \<open>An exception that leaves a handler is an uncaught error; the page goes on.\<close>

fun settle :: "completion \<Rightarrow> app" where
  "settle (Normal s) = s"
| "settle (Throw e s) = s\<lparr>unhandled := unhandled s @ [e]\<rparr>"

fun handle :: "input \<Rightarrow> app \<Rightarrow> app" where
  "handle Socket_connect s = s"
| "handle (Socket_terminal_output sid d) s = settle (on_terminal_output sid d s)"
| "handle (Socket_terminal_created sid) s = settle (on_terminal_created sid s)"
| "handle (Socket_terminal_closed sid) s = settle (on_terminal_closed sid s)"
| "handle (Socket_terminal_error err) s = settle (on_terminal_error err s)"
| "handle (User_executeTool n now) s = settle (executeTool n now s)"
| "handle (User_installTool n now) s = settle (installTool n now s)"
| "handle (User_removeTool n now) s = settle (removeTool n now s)"
| "handle (User_closeTerminal sid) s = settle (app_closeTerminal sid s)"
| "handle (User_minimizeTerminal sid) s = minimizeTerminal sid s"
| "handle User_toggleExecutionMode s = toggleExecutionMode s"
| "handle (User_toggleView view) s = toggleView view s"
| "handle User_closeModals s = closeModals s"
| "handle (User_getToolDetails n) s = getToolDetails n s"
| "handle (User_getSessionDetails n) s = getSessionDetails n s"
| "handle (Poll rt rc rs) s = settle (fetchData rt rc rs s)"
| "handle (Next_Tick rp) s = tick rp s"
| "handle (Time_Passes T) s = advance T s"
| "handle (Keystroke t d) s = key_input t d s"
| "handle (Surface_Resized ob r c) s = surface_resized ob r c s"
| "handle (Dom_Rendered cs) s = s\<lparr>containers := cs\<rparr>"

definition run :: "input list \<Rightarrow> app \<Rightarrow> app" where
  "run ins s = fold handle ins s"

section \<open>Scenarios used to state and instantiate the properties\<close>

text \<open>\<open>n\<close> successive calls of the manager's \<^verbatim>\<open>closeTerminal\<close> for one session id.\<close>

fun close_times :: "nat \<Rightarrow> session_id \<Rightarrow> app \<Rightarrow> completion" where
  "close_times 0 sid s = Normal s"
| "close_times (Suc n) sid s = and_then (closeTerminal sid s) (close_times n sid)"

text \<open>A page whose emulators dispose without error, with one rendered container; and the
  same page after a terminal was created in it.\<close>

definition no_faults :: "nat \<Rightarrow> exn option" where
  "no_faults t = None"

definition page0 :: app where
  "page0 = (init_app no_faults)\<lparr>containers := [''terminal-tool_nmap_123'']\<rparr>"

definition page1 :: app where
  "page1 = state_of (createTerminal ''tool_nmap_123'' ''terminal-tool_nmap_123'' page0)"

text \<open>The part of the state that holds the execution mode and the notification sink.\<close>

definition shell ::
  "app \<Rightarrow> string \<times> notification list \<times> nat \<times> (nat \<times> timer_task) list \<times> nat" where
  "shell s = (executionMode s, notifications s, notificationId s, timers s, clock s)"

text \<open>A fetch fails when it rejects or answers with a status outside 200..299.\<close>

fun fetch_failed :: "'a fetch_result \<Rightarrow> bool" where
  "fetch_failed Rejects = True"
| "fetch_failed (Responds status body) = (\<not> response_ok status)"

text \<open>
  What one collection is expected to hold after a poll, as a function of the outcome of
  its own fetch alone: the list received when the fetch succeeds, the empty list when it
  fails (and also when a 2xx body does not parse).
\<close>

fun expected_collection :: "'a list fetch_result \<Rightarrow> 'a list" where
  "expected_collection Rejects = []"
| "expected_collection (Responds status body) =
     (if response_ok status then (case body of Some v \<Rightarrow> v | None \<Rightarrow> []) else [])"

text \<open>
  A check on a stretch of the trace, read from left to right with \<open>reg\<close> telling whether
  the session is in the registry at that point: every emission of the event \<open>e\<close> happens
  while the session \<open>sid\<close> is registered.
\<close>

fun registered_when_emitted :: "session_id \<Rightarrow> event \<Rightarrow> bool \<Rightarrow> action list \<Rightarrow> bool" where
  "registered_when_emitted sid e reg [] = True"
| "registered_when_emitted sid e reg (a # as) =
     (if a = Registry_Set sid then registered_when_emitted sid e True as
      else if a = Registry_Delete sid then registered_when_emitted sid e False as
      else if a = Emit e then reg \<and> registered_when_emitted sid e reg as
      else registered_when_emitted sid e reg as)"

text \<open>A backend that answers every request of one callback with success.\<close>

definition quiet_replies :: replies where
  "quiet_replies = \<lparr>r_post = Responds 200 None, r_tools = Responds 200 (Some []),
     r_categories = Responds 200 (Some []), r_sessions = Responds 200 (Some [])\<rparr>"

text \<open>The page after the user ran the tool nmap at time 123, the DOM was rendered and the
  queued callback ran.\<close>

definition page2 :: app where
  "page2 = run [User_executeTool ''nmap'' 123, Dom_Rendered [''terminal-tool_nmap_123''],
                Next_Tick quiet_replies] (init_app no_faults)"

text \<open>An emulator that was constructed, is not disposed, and that no registry entry refers
  to.\<close>

definition leaked :: "app \<Rightarrow> nat \<Rightarrow> bool" where
  "leaked s t = (t < next_emu s \<and> \<not> disposed (emus s t) \<and> t |\<notin>| terminal |`| fmran (terminals s))"

text \<open>The page with one terminal, in an environment where \<^verbatim>\<open>dispose\<close> throws.\<close>

definition faulty_page1 :: app where
  "faulty_page1 = page1\<lparr>dispose_fault := (\<lambda>t. Some (Error ''dispose failed''))\<rparr>"

text \<open>The timer callbacks that are due when the clock reads \<open>T\<close>.\<close>

definition due_by :: "nat \<Rightarrow> app \<Rightarrow> timer_task set" where
  "due_by T s = {k. \<exists>d. (d, k) \<in> set (timers s) \<and> d \<le> T}"

text \<open>The notification id a timer callback has captured.\<close>

fun task_id :: "timer_task \<Rightarrow> nat" where
  "task_id (Remove_Notification i) = i"

text \<open>While the counter is exact, every id in the list of notifications and in the
  pending timers is below the counter.\<close>

definition ids_below :: "app \<Rightarrow> bool" where
  "ids_below s =
     (notificationId s < 2 ^ 53 \<longrightarrow>
        (\<forall>n\<in>set (notifications s). nid n < notificationId s)
        \<and> (\<forall>p\<in>set (timers s). task_id (snd p) < notificationId s))"

text \<open>
  The life of a notification raised when the clock read \<open>t0\<close>: later ids are greater;
  before \<open>t0 + 3000\<close> it is in the list and its timer is pending, and no timer for its id
  is due earlier; from \<open>t0 + 3000\<close> on no entry of the list has its id.
\<close>

definition live :: "nat \<Rightarrow> notification \<Rightarrow> app \<Rightarrow> bool" where
  "live t0 entry x =
     (nid entry < notificationId x
      \<and> (clock x < t0 + 3000 \<longrightarrow>
           entry \<in> set (notifications x)
           \<and> (\<forall>p\<in>set (timers x). snd p = Remove_Notification (nid entry) \<longrightarrow> t0 + 3000 \<le> fst p))
      \<and> (clock x < t0 + 3000 \<longrightarrow> (t0 + 3000, Remove_Notification (nid entry)) \<in> set (timers x))
      \<and> (t0 + 3000 \<le> clock x \<longrightarrow> (\<forall>n\<in>set (notifications x). nid n \<noteq> nid entry)))"

text \<open>The initial page after one notification was raised.\<close>

definition notified :: app where
  "notified = showNotification ''Scan failed'' ''error'' (init_app no_faults)"

text \<open>The page with one notification after a poll that filled the three collections.\<close>

definition stocked_page :: app where
  "stocked_page =
     state_of (fetchData (Responds 200 (Some [\<lparr>tool_name = ''nmap'', installed = True\<rparr>]))
                 (Responds 200 (Some [''recon'']))
                 (Responds 200 (Some [\<lparr>session_no = 1, active = True\<rparr>])) notified)"

text \<open>A backend that answers the \<^verbatim>\<open>POST\<close> with status 500.\<close>

definition failing_replies :: replies where
  "failing_replies = quiet_replies\<lparr>r_post := Responds 500 None\<rparr>"

section \<open>Properties\<close>

subsection \<open>Registry operations on absent and present sessions\<close>

lemmas effect_defs =
  createTerminal_def closeTerminal_def write_data_def new_Terminal_def getElementById_def
  open_terminal_def add_onData_def new_ResizeObserver_def observe_def dispose_def
  disconnect_def terminal_write_def registry_set_def registry_delete_def socket_emit_def
  record_action_def

lemma closeTerminal_absent:
  "fmlookup (terminals s) sid = None \<Longrightarrow> closeTerminal sid s = Normal s"
  by (simp add: closeTerminal_def)

lemma close_times_absent:
  "fmlookup (terminals s) sid = None \<Longrightarrow> close_times n sid s = Normal s"
  by (induction n) (simp_all add: closeTerminal_absent)

lemma closeTerminal_present:
  assumes "fmlookup (terminals s) sid = Some td" and "dispose_fault s (terminal td) = None"
  shows "\<exists>s'. closeTerminal sid s = Normal s' \<and> terminals s' = fmdrop sid (terminals s)"
  using assms by (simp add: effect_defs Let_def)

lemma fcard_fmdrop:
  "fmlookup m k = Some v \<Longrightarrow> fcard (fmdom m) = Suc (fcard (fmdom (fmdrop k m)))"
  by (metis fmdomI fcard_Suc_fminus1 fmdom_drop)

lemma page0_registry: "fmlookup (terminals page0) sid = None"
  by (simp add: page0_def init_app_def)

lemma page1_registry:
  "fmlookup (terminals page1) ''tool_nmap_123'' = Some \<lparr>terminal = 0, resizeObserver = 0\<rparr>"
  by (simp add: page1_def page0_def init_app_def effect_defs Let_def)

lemma page1_faults: "dispose_fault page1 t = None"
  by (simp add: page1_def page0_def init_app_def effect_defs Let_def no_faults_def)

text \<open>
  Claim C8, as amended.  For a session id that is not in the registry, \<^verbatim>\<open>write\<close> and
  \<^verbatim>\<open>closeTerminal\<close> return normally and leave the whole state as it was, the record of
  emitted events included; so a \<^verbatim>\<open>terminal_output\<close> event for an unknown session is
  dropped.  For a registered session whose emulator disposes without error, \<open>n > 0\<close>
  successive close calls all return and the registry has exactly one entry less afterwards.
  (Without the condition on \<^verbatim>\<open>dispose\<close> the second half fails, as shown further down for a
  page whose emulator throws on disposal.)
\<close>

theorem registry_absent_noop_and_close_once:
  "(fmlookup (terminals s) sid = None \<longrightarrow>
      write_data sid d s = Normal s \<and> closeTerminal sid s = Normal s
      \<and> on_terminal_output sid d s = Normal s)
   \<and> (fmlookup (terminals r) k = Some td \<and> dispose_fault r (terminal td) = None \<and> 0 < n \<longrightarrow>
        (\<exists>r'. close_times n k r = Normal r'
           \<and> fcard (fmdom (terminals r)) = Suc (fcard (fmdom (terminals r')))))"
proof (intro conjI impI)
  assume "fmlookup (terminals s) sid = None"
  then show "write_data sid d s = Normal s" "closeTerminal sid s = Normal s"
    "on_terminal_output sid d s = Normal s"
    by (simp_all add: write_data_def closeTerminal_def on_terminal_output_def)
next
  assume a: "fmlookup (terminals r) k = Some td \<and> dispose_fault r (terminal td) = None \<and> 0 < n"
  then obtain m where n: "n = Suc m" by (cases n) auto
  from a obtain r1 where r1: "closeTerminal k r = Normal r1" "terminals r1 = fmdrop k (terminals r)"
    using closeTerminal_present by blast
  have "close_times m k r1 = Normal r1" using r1 by (simp add: close_times_absent)
  with r1 n have "close_times n k r = Normal r1" by simp
  moreover have "fcard (fmdom (terminals r)) = Suc (fcard (fmdom (terminals r1)))"
    using a fcard_fmdrop [of "terminals r" k td] unfolding r1(2) by blast
  ultimately show "\<exists>r'. close_times n k r = Normal r'
           \<and> fcard (fmdom (terminals r)) = Suc (fcard (fmdom (terminals r')))" by blast
qed

theorem registry_absent_noop_and_close_once_witness:
  "fmlookup (terminals page0) ''tool_nmap_123'' = None
   \<and> write_data ''tool_nmap_123'' ''scan started'' page0 = Normal page0
   \<and> closeTerminal ''tool_nmap_123'' page0 = Normal page0
   \<and> on_terminal_output ''tool_nmap_123'' ''scan started'' page0 = Normal page0
   \<and> fmlookup (terminals page1) ''tool_nmap_123'' = Some \<lparr>terminal = 0, resizeObserver = 0\<rparr>
   \<and> dispose_fault page1 0 = None \<and> (0::nat) < 3
   \<and> (\<exists>r'. close_times 3 ''tool_nmap_123'' page1 = Normal r'
         \<and> fcard (fmdom (terminals page1)) = Suc (fcard (fmdom (terminals r'))))"
  using page0_registry [of "''tool_nmap_123''"] page1_registry page1_faults [of 0]
    registry_absent_noop_and_close_once
      [of page0 "''tool_nmap_123''" "''scan started''" page1 "''tool_nmap_123''"
          "\<lparr>terminal = 0, resizeObserver = 0\<rparr>" 3]
  by simp

subsection \<open>Frame lemmas: the terminal manager leaves the notification sink alone\<close>

lemma shell_settle [simp]: "shell (settle c) = shell (state_of c)"
  by (cases c) (simp_all add: shell_def)

lemma shell_and_then:
  assumes "shell (state_of c) = v" and "\<And>s. shell s = v \<Longrightarrow> shell (state_of (f s)) = v"
  shows "shell (state_of (and_then c f)) = v"
  using assms by (cases c) simp_all

lemma shell_createTerminal [simp]: "shell (state_of (createTerminal sid cid s)) = shell s"
  by (simp add: shell_def effect_defs Let_def split: option.splits)

lemma shell_closeTerminal [simp]: "shell (state_of (closeTerminal sid s)) = shell s"
  by (simp add: shell_def effect_defs Let_def split: option.splits)

lemma shell_write_data [simp]: "shell (state_of (write_data sid d s)) = shell s"
  by (simp add: shell_def effect_defs Let_def split: option.splits)

subsection \<open>Polling\<close>

lemma try_fetch_tools:
  "try_catch (fetch_tools r s) (\<lambda>e s'. Normal (s'\<lparr>tools := []\<rparr>)) =
     Normal (s\<lparr>trace := trace s @ [Http_Get ''/api/tools''], tools := expected_collection r\<rparr>)"
  by (cases r) (simp_all add: fetch_tools_def record_action_def Let_def split: option.splits)

lemma try_fetch_categories:
  "try_catch (fetch_categories r s) (\<lambda>e s'. Normal (s'\<lparr>categories := []\<rparr>)) =
     Normal (s\<lparr>trace := trace s @ [Http_Get ''/api/categories''],
               categories := expected_collection r\<rparr>)"
  by (cases r) (simp_all add: fetch_categories_def record_action_def Let_def split: option.splits)

lemma try_fetch_sessions:
  "try_catch (fetch_sessions r s) (\<lambda>e s'. Normal (s'\<lparr>sessions := []\<rparr>)) =
     Normal (s\<lparr>trace := trace s @ [Http_Get ''/api/sessions''],
               sessions := expected_collection r\<rparr>)"
  by (cases r) (simp_all add: fetch_sessions_def record_action_def Let_def split: option.splits)

text \<open>No inner \<^verbatim>\<open>try\<close> statement lets an exception out, so the outer \<^verbatim>\<open>catch\<close> of
  \<^verbatim>\<open>fetchData\<close> never runs.\<close>

lemma fetchData_result:
  "fetchData rt rc rs s =
     Normal (s\<lparr>trace := trace s @ [Http_Get ''/api/tools'', Http_Get ''/api/categories'',
                                    Http_Get ''/api/sessions''],
               tools := expected_collection rt, categories := expected_collection rc,
               sessions := expected_collection rs, loading := False\<rparr>)"
  by (simp add: fetchData_def try_fetch_tools try_fetch_categories try_fetch_sessions)

lemma shell_fetchData [simp]: "shell (state_of (fetchData rt rc rs s)) = shell s"
  by (simp add: fetchData_result shell_def)

lemma expected_collection_failed: "fetch_failed r \<Longrightarrow> expected_collection r = []"
  by (cases r) simp_all

text \<open>
  Claim C7.  A poll never throws and always attempts the three requests, in the order
  tools, categories, sessions, whatever their outcomes.  Afterwards each collection is
  what its own fetch determines: the received list when that fetch succeeded and the empty
  list when it failed, independently of the other two fetches.
\<close>

theorem poll_collections_independent:
  "thrown (fetchData rt rc rs s) = None
   \<and> trace (state_of (fetchData rt rc rs s)) =
       trace s @ [Http_Get ''/api/tools'', Http_Get ''/api/categories'', Http_Get ''/api/sessions'']
   \<and> tools (state_of (fetchData rt rc rs s)) = expected_collection rt
   \<and> categories (state_of (fetchData rt rc rs s)) = expected_collection rc
   \<and> sessions (state_of (fetchData rt rc rs s)) = expected_collection rs
   \<and> (fetch_failed rt \<longrightarrow> tools (state_of (fetchData rt rc rs s)) = [])
   \<and> (fetch_failed rc \<longrightarrow> categories (state_of (fetchData rt rc rs s)) = [])
   \<and> (fetch_failed rs \<longrightarrow> sessions (state_of (fetchData rt rc rs s)) = [])"
  by (simp add: fetchData_result expected_collection_failed)

theorem poll_collections_independent_witness:
  "fetch_failed (Rejects :: tool list fetch_result)
   \<and> fetch_failed (Responds 404 None :: string list fetch_result)
   \<and> fetch_failed (Responds 500 None :: session list fetch_result)
   \<and> tools (state_of (fetchData Rejects (Responds 200 (Some [''recon'', ''web''])) (Responds 500 None) page0)) = []
   \<and> categories (state_of (fetchData Rejects (Responds 200 (Some [''recon'', ''web''])) (Responds 500 None) page0))
       = [''recon'', ''web'']
   \<and> sessions (state_of (fetchData Rejects (Responds 200 (Some [''recon'', ''web''])) (Responds 500 None) page0)) = []
   \<and> tools (state_of (fetchData (Responds 200 (Some [\<lparr>tool_name = ''nmap'', installed = True\<rparr>]))
                (Responds 404 None) (Responds 200 (Some [\<lparr>session_no = 1, active = True\<rparr>])) page0))
       = [\<lparr>tool_name = ''nmap'', installed = True\<rparr>]
   \<and> categories (state_of (fetchData (Responds 200 (Some [\<lparr>tool_name = ''nmap'', installed = True\<rparr>]))
                (Responds 404 None) (Responds 200 (Some [\<lparr>session_no = 1, active = True\<rparr>])) page0)) = []
   \<and> sessions (state_of (fetchData (Responds 200 (Some [\<lparr>tool_name = ''nmap'', installed = True\<rparr>]))
                (Responds 404 None) (Responds 200 (Some [\<lparr>session_no = 1, active = True\<rparr>])) page0))
       = [\<lparr>session_no = 1, active = True\<rparr>]"
  using poll_collections_independent
      [of Rejects "Responds 200 (Some [''recon'', ''web''])" "Responds 500 None" page0]
    poll_collections_independent
      [of "Responds 200 (Some [\<lparr>tool_name = ''nmap'', installed = True\<rparr>])" "Responds 404 None"
          "Responds 200 (Some [\<lparr>session_no = 1, active = True\<rparr>])" page0]
  by (simp add: response_ok_def)

text \<open>
  Claim C3, as amended.  When the fetch of a collection fails (it rejects or answers
  with a non-2xx status), a poll replaces that collection with the empty list and raises no
  notification: the list of notifications, the id counter and the pending timers are what
  they were.  (The claim as stated asks for one warning notification; the only call that
  raises it sits in the outer \<^verbatim>\<open>catch\<close>, which the inner handlers keep from running.)
\<close>

theorem poll_failure_empties_without_notification:
  "(fetch_failed rt \<longrightarrow> tools (state_of (fetchData rt rc rs s)) = [])
   \<and> (fetch_failed rc \<longrightarrow> categories (state_of (fetchData rt rc rs s)) = [])
   \<and> (fetch_failed rs \<longrightarrow> sessions (state_of (fetchData rt rc rs s)) = [])
   \<and> notifications (state_of (fetchData rt rc rs s)) = notifications s
   \<and> notificationId (state_of (fetchData rt rc rs s)) = notificationId s
   \<and> timers (state_of (fetchData rt rc rs s)) = timers s"
  by (simp add: fetchData_result expected_collection_failed)

lemma stocked_page_eval:
  "tools stocked_page = [\<lparr>tool_name = ''nmap'', installed = True\<rparr>]"
  "categories stocked_page = [''recon'']"
  "sessions stocked_page = [\<lparr>session_no = 1, active = True\<rparr>]"
  "notifications stocked_page = [\<lparr>nid = 0, message = ''Scan failed'', ntype = ''error''\<rparr>]"
  by (simp_all add: stocked_page_def fetchData_result response_ok_def notified_def
      showNotification_def Let_def init_app_def)

theorem poll_failure_empties_without_notification_witness:
  "fetch_failed (Rejects :: tool list fetch_result)
   \<and> fetch_failed (Responds 404 None :: string list fetch_result)
   \<and> fetch_failed (Responds 500 None :: session list fetch_result)
   \<and> tools stocked_page = [\<lparr>tool_name = ''nmap'', installed = True\<rparr>]
   \<and> categories stocked_page = [''recon'']
   \<and> sessions stocked_page = [\<lparr>session_no = 1, active = True\<rparr>]
   \<and> notifications stocked_page = [\<lparr>nid = 0, message = ''Scan failed'', ntype = ''error''\<rparr>]
   \<and> tools (state_of (fetchData Rejects (Responds 404 None) (Responds 500 None) stocked_page)) = []
   \<and> categories (state_of (fetchData Rejects (Responds 404 None) (Responds 500 None) stocked_page)) = []
   \<and> sessions (state_of (fetchData Rejects (Responds 404 None) (Responds 500 None) stocked_page)) = []
   \<and> notifications (state_of (fetchData Rejects (Responds 404 None) (Responds 500 None) stocked_page))
       = [\<lparr>nid = 0, message = ''Scan failed'', ntype = ''error''\<rparr>]"
  using poll_failure_empties_without_notification
      [of Rejects "Responds 404 None" "Responds 500 None" stocked_page]
  by (simp add: response_ok_def stocked_page_eval)

text \<open>The claim as stated fails: the fetch of \<^verbatim>\<open>/api/tools\<close> rejects, the other two succeed,
  and the page that had no notification still has none.\<close>

theorem poll_failure_warning_counterexample:
  "fetch_failed (Rejects :: tool list fetch_result)
   \<and> notifications page0 = []
   \<and> tools (state_of (fetchData Rejects (Responds 200 (Some [''recon''])) (Responds 200 (Some [])) page0)) = []
   \<and> notifications (state_of (fetchData Rejects (Responds 200 (Some [''recon'']))
                                  (Responds 200 (Some [])) page0)) = []"
  by (simp add: fetchData_result page0_def init_app_def)

subsection \<open>Creating and closing terminals\<close>

lemma emitted_append [simp]: "emitted (xs @ ys) = emitted xs @ emitted ys"
  by (induction xs rule: emitted.induct) simp_all

lemma createTerminal_found:
  assumes "cid \<in> set (containers s)"
  shows "createTerminal sid cid s =
     Normal (s\<lparr>next_emu := Suc (next_emu s),
               emus := (emus s)(next_emu s := fresh_xterm\<lparr>opened := Some cid, onData := [sid]\<rparr>),
               next_obs := Suc (next_obs s),
               observers := (observers s)(next_obs s :=
                 \<lparr>target = Some cid, connected = True, cb_session = sid, cb_terminal = next_emu s\<rparr>),
               terminals := fmupd sid \<lparr>terminal = next_emu s, resizeObserver = next_obs s\<rparr> (terminals s),
               trace := trace s @ [New_Terminal (next_emu s), Open_Terminal (next_emu s) cid,
                 New_Observer (next_obs s), Observe (next_obs s) cid, Registry_Set sid,
                 Emit (terminal_create sid)]\<rparr>)"
  using assms by (simp add: effect_defs Let_def fresh_xterm_def)

lemma createTerminal_missing:
  assumes "cid \<notin> set (containers s)"
  shows "createTerminal sid cid s =
     Throw (Error (''Container '' @ cid @ '' not found''))
       (s\<lparr>next_emu := Suc (next_emu s), emus := (emus s)(next_emu s := fresh_xterm),
          trace := trace s @ [New_Terminal (next_emu s)]\<rparr>)"
  using assms by (simp add: effect_defs Let_def)

lemma closeTerminal_ok:
  assumes "fmlookup (terminals s) sid = Some td" and "dispose_fault s (terminal td) = None"
  shows "closeTerminal sid s =
     Normal (s\<lparr>emus := (emus s)(terminal td := (emus s (terminal td))\<lparr>disposed := True\<rparr>),
               observers := (observers s)(resizeObserver td :=
                 (observers s (resizeObserver td))\<lparr>connected := False\<rparr>),
               terminals := fmdrop sid (terminals s),
               trace := trace s @ [Dispose (terminal td), Disconnect (resizeObserver td),
                 Registry_Delete sid, Emit (terminal_close sid)]\<rparr>)"
  using assms by (simp add: effect_defs Let_def)

lemma closeTerminal_fault:
  assumes "fmlookup (terminals s) sid = Some td" and "dispose_fault s (terminal td) = Some e"
  shows "closeTerminal sid s = Throw e (s\<lparr>trace := trace s @ [Dispose (terminal td)]\<rparr>)"
  using assms by (simp add: effect_defs Let_def)

lemma show_nat_123: "show_nat 123 = ''123''"
  by (simp add: show_nat.simps)

lemma page2_eval:
  "fmlookup (terminals page2) ''tool_nmap_123'' = Some \<lparr>terminal = 0, resizeObserver = 0\<rparr>"
  "emitted (trace page2) = [terminal_create ''tool_nmap_123'', execute_tool ''nmap'' ''guided'']"
  "activeTerminals page2 = [\<lparr>sessionId = ''tool_nmap_123'', title = ''nmap - guided mode'', minimized = False\<rparr>]"
  "dispose_fault page2 = no_faults"
  by (simp_all add: page2_def run_def executeTool_def push_terminal_def nextTick_def tick_def
      init_app_def show_nat_123 effect_defs Let_def)

lemma findIndex_first:
  assumes "\<forall>t\<in>set pre. \<not> P t" and "P e"
  shows "findIndex P (pre @ e # post) = int (length pre)"
  using assms by (induction pre) (simp_all add: Let_def)

lemma splice1_first: "splice1 (int (length pre)) (pre @ e # post) = pre @ post"
  by (simp add: splice1_def)

lemma findIndex_none: "(\<forall>t\<in>set xs. \<not> P t) \<Longrightarrow> findIndex P xs = - 1"
  by (induction xs) (simp_all add: Let_def)

text \<open>
  Claim C1, as amended.  When the backend sends \<^verbatim>\<open>terminal_closed\<close> for a registered
  session whose emulator disposes without error, the handler returns, the registry entry
  is gone, the first entry of \<^verbatim>\<open>activeTerminals\<close> for that session is removed, and exactly
  one event is sent in response: \<^verbatim>\<open>terminal_close\<close> for that session.
\<close>

theorem backend_close_removes_and_announces:
  "fmlookup (terminals s) sid = Some td \<and> dispose_fault s (terminal td) = None \<longrightarrow>
     (\<exists>s'. on_terminal_closed sid s = Normal s'
        \<and> fmlookup (terminals s') sid = None
        \<and> emitted (trace s') = emitted (trace s) @ [terminal_close sid]
        \<and> (\<forall>pre e post. activeTerminals s = pre @ e # post \<and> sessionId e = sid
              \<and> (\<forall>t\<in>set pre. sessionId t \<noteq> sid) \<longrightarrow> activeTerminals s' = pre @ post))"
proof (intro impI)
  assume a: "fmlookup (terminals s) sid = Some td \<and> dispose_fault s (terminal td) = None"
  define s1 where "s1 = state_of (closeTerminal sid s)"
  have c: "closeTerminal sid s = Normal s1" and t: "fmlookup (terminals s1) sid = None"
    and e: "emitted (trace s1) = emitted (trace s) @ [terminal_close sid]"
    and l: "activeTerminals s1 = activeTerminals s"
    using a by (simp_all add: s1_def closeTerminal_ok)
  let ?i = "findIndex (\<lambda>t. sessionId t = sid) (activeTerminals s1)"
  define s' where "s' = (if ?i \<noteq> - 1 then s1\<lparr>activeTerminals := splice1 ?i (activeTerminals s1)\<rparr> else s1)"
  have r: "on_terminal_closed sid s = Normal s'"
    by (simp add: on_terminal_closed_def app_closeTerminal_def c s'_def Let_def)
  have "activeTerminals s' = pre @ post"
    if "activeTerminals s = pre @ e # post \<and> sessionId e = sid \<and> (\<forall>t\<in>set pre. sessionId t \<noteq> sid)"
    for pre e post
  proof -
    have "?i = int (length pre)"
      using that l findIndex_first [of pre "\<lambda>t. sessionId t = sid" e post] by simp
    then show ?thesis using that l by (simp add: s'_def splice1_first)
  qed
  moreover have "fmlookup (terminals s') sid = None" using t by (simp add: s'_def)
  moreover have "emitted (trace s') = emitted (trace s) @ [terminal_close sid]"
    using e by (simp add: s'_def)
  ultimately show "\<exists>s'. on_terminal_closed sid s = Normal s'
        \<and> fmlookup (terminals s') sid = None
        \<and> emitted (trace s') = emitted (trace s) @ [terminal_close sid]
        \<and> (\<forall>pre e post. activeTerminals s = pre @ e # post \<and> sessionId e = sid
              \<and> (\<forall>t\<in>set pre. sessionId t \<noteq> sid) \<longrightarrow> activeTerminals s' = pre @ post)"
    using r by blast
qed

theorem backend_close_removes_and_announces_witness:
  "fmlookup (terminals page2) ''tool_nmap_123'' = Some \<lparr>terminal = 0, resizeObserver = 0\<rparr>
   \<and> dispose_fault page2 0 = None
   \<and> activeTerminals page2 =
       [\<lparr>sessionId = ''tool_nmap_123'', title = ''nmap - guided mode'', minimized = False\<rparr>]
   \<and> (\<exists>s'. on_terminal_closed ''tool_nmap_123'' page2 = Normal s'
        \<and> fmlookup (terminals s') ''tool_nmap_123'' = None
        \<and> emitted (trace s') = emitted (trace page2) @ [terminal_close ''tool_nmap_123'']
        \<and> activeTerminals s' = [])"
proof -
  have h: "fmlookup (terminals page2) ''tool_nmap_123'' = Some \<lparr>terminal = 0, resizeObserver = 0\<rparr>
      \<and> dispose_fault page2 (terminal \<lparr>terminal = 0, resizeObserver = 0\<rparr>) = None"
    by (simp add: page2_eval no_faults_def)
  have l: "activeTerminals page2 = [] @ \<lparr>sessionId = ''tool_nmap_123'', title = ''nmap - guided mode'', minimized = False\<rparr> # []"
    by (simp add: page2_eval)
  from backend_close_removes_and_announces [of page2 "''tool_nmap_123''" "\<lparr>terminal = 0, resizeObserver = 0\<rparr>"] h
  obtain s' where s': "on_terminal_closed ''tool_nmap_123'' page2 = Normal s'"
     "fmlookup (terminals s') ''tool_nmap_123'' = None"
     "emitted (trace s') = emitted (trace page2) @ [terminal_close ''tool_nmap_123'']"
     "\<forall>pre e post. activeTerminals page2 = pre @ e # post \<and> sessionId e = ''tool_nmap_123''
              \<and> (\<forall>t\<in>set pre. sessionId t \<noteq> ''tool_nmap_123'') \<longrightarrow> activeTerminals s' = pre @ post"
    by blast
  from s'(4) l have "activeTerminals s' = [] @ []" by fastforce
  with s' h l show ?thesis by (simp add: no_faults_def page2_eval)
qed

text \<open>The claim as stated fails: after the handler has run for the registered session, a
  \<^verbatim>\<open>terminal_close\<close> event has been sent to the backend.\<close>

theorem backend_close_silent_counterexample:
  "fmlookup (terminals page2) ''tool_nmap_123'' = Some \<lparr>terminal = 0, resizeObserver = 0\<rparr>
   \<and> emitted (trace page2) = [terminal_create ''tool_nmap_123'', execute_tool ''nmap'' ''guided'']
   \<and> emitted (trace (state_of (on_terminal_closed ''tool_nmap_123'' page2))) =
       [terminal_create ''tool_nmap_123'', execute_tool ''nmap'' ''guided'',
        terminal_close ''tool_nmap_123'']"
  by (simp add: page2_eval on_terminal_closed_def app_closeTerminal_def
      closeTerminal_ok [of page2 "''tool_nmap_123''" "\<lparr>terminal = 0, resizeObserver = 0\<rparr>"]
      no_faults_def Let_def)

lemma page1_eval:
  "fmlookup (terminals page1) ''tool_nmap_123'' = Some \<lparr>terminal = 0, resizeObserver = 0\<rparr>"
  "trace page1 = [New_Terminal 0, Open_Terminal 0 ''terminal-tool_nmap_123'', New_Observer 0,
     Observe 0 ''terminal-tool_nmap_123'', Registry_Set ''tool_nmap_123'',
     Emit (terminal_create ''tool_nmap_123'')]"
  "dispose_fault page1 = no_faults"
  "connected (observers page1 0)"
  "\<not> disposed (emus page1 0)"
  by (simp_all add: page1_def page0_def init_app_def createTerminal_found fresh_xterm_def)

text \<open>
  Claim C2, as amended.  For a registered session whose emulator disposes without error,
  \<^verbatim>\<open>closeTerminal\<close> performs, in this order: dispose the emulator, disconnect the observer,
  remove the entry (and then emits \<^verbatim>\<open>terminal_close\<close>); afterwards the emulator is disposed,
  the observer is disconnected and the entry is absent.
\<close>

theorem teardown_order_when_dispose_returns:
  "fmlookup (terminals s) sid = Some td \<and> dispose_fault s (terminal td) = None \<longrightarrow>
     (\<exists>s'. closeTerminal sid s = Normal s'
        \<and> trace s' = trace s @ [Dispose (terminal td), Disconnect (resizeObserver td),
                                 Registry_Delete sid, Emit (terminal_close sid)]
        \<and> disposed (emus s' (terminal td))
        \<and> \<not> connected (observers s' (resizeObserver td))
        \<and> fmlookup (terminals s') sid = None)"
  by (simp add: closeTerminal_ok)

theorem teardown_order_when_dispose_returns_witness:
  "fmlookup (terminals page1) ''tool_nmap_123'' = Some \<lparr>terminal = 0, resizeObserver = 0\<rparr>
   \<and> dispose_fault page1 0 = None
   \<and> (\<exists>s'. closeTerminal ''tool_nmap_123'' page1 = Normal s'
        \<and> trace s' = trace page1 @ [Dispose 0, Disconnect 0, Registry_Delete ''tool_nmap_123'',
                                     Emit (terminal_close ''tool_nmap_123'')]
        \<and> disposed (emus s' 0) \<and> \<not> connected (observers s' 0)
        \<and> fmlookup (terminals s') ''tool_nmap_123'' = None)"
  using teardown_order_when_dispose_returns
      [of page1 "''tool_nmap_123''" "\<lparr>terminal = 0, resizeObserver = 0\<rparr>"]
  by (simp add: page1_eval no_faults_def)

text \<open>The claim as stated fails twice.  The emulator is disposed before the observer is
  disconnected; and when \<^verbatim>\<open>dispose\<close> throws, the call ends there: the observer is still
  connected and the entry is still registered.\<close>

theorem teardown_best_effort_counterexample:
  "fmlookup (terminals page1) ''tool_nmap_123'' = Some \<lparr>terminal = 0, resizeObserver = 0\<rparr>
   \<and> drop (length (trace page1)) (trace (state_of (closeTerminal ''tool_nmap_123'' page1))) =
       [Dispose 0, Disconnect 0, Registry_Delete ''tool_nmap_123'',
        Emit (terminal_close ''tool_nmap_123'')]
   \<and> fmlookup (terminals faulty_page1) ''tool_nmap_123'' = Some \<lparr>terminal = 0, resizeObserver = 0\<rparr>
   \<and> closeTerminal ''tool_nmap_123'' faulty_page1 =
       Throw (Error ''dispose failed'') (faulty_page1\<lparr>trace := trace faulty_page1 @ [Dispose 0]\<rparr>)
   \<and> connected (observers (state_of (closeTerminal ''tool_nmap_123'' faulty_page1)) 0)
   \<and> fmlookup (terminals (state_of (closeTerminal ''tool_nmap_123'' faulty_page1))) ''tool_nmap_123''
       = Some \<lparr>terminal = 0, resizeObserver = 0\<rparr>"
proof -
  have f: "fmlookup (terminals faulty_page1) ''tool_nmap_123'' = Some \<lparr>terminal = 0, resizeObserver = 0\<rparr>"
    "dispose_fault faulty_page1 0 = Some (Error ''dispose failed'')"
    "connected (observers faulty_page1 0)"
    by (simp_all add: faulty_page1_def page1_eval)
  have c: "closeTerminal ''tool_nmap_123'' faulty_page1 =
       Throw (Error ''dispose failed'') (faulty_page1\<lparr>trace := trace faulty_page1 @ [Dispose 0]\<rparr>)"
    using closeTerminal_fault [of faulty_page1 "''tool_nmap_123''" "\<lparr>terminal = 0, resizeObserver = 0\<rparr>"] f
    by simp
  have o: "closeTerminal ''tool_nmap_123'' page1 =
     Normal (page1\<lparr>emus := (emus page1)(0 := (emus page1 0)\<lparr>disposed := True\<rparr>),
               observers := (observers page1)(0 := (observers page1 0)\<lparr>connected := False\<rparr>),
               terminals := fmdrop ''tool_nmap_123'' (terminals page1),
               trace := trace page1 @ [Dispose 0, Disconnect 0,
                 Registry_Delete ''tool_nmap_123'', Emit (terminal_close ''tool_nmap_123'')]\<rparr>)"
    using closeTerminal_ok [of page1 "''tool_nmap_123''" "\<lparr>terminal = 0, resizeObserver = 0\<rparr>"]
    by (simp add: page1_eval no_faults_def)
  show ?thesis
    by (simp add: c o f page1_eval(1))
qed

lemma page1_terminals:
  "terminals page1 = fmupd ''tool_nmap_123'' \<lparr>terminal = 0, resizeObserver = 0\<rparr> fmempty"
  by (simp add: page1_def page0_def init_app_def createTerminal_found)

text \<open>
  The close-once half of claim C8 fails as stated, for every registered session: on the
  page with one registered terminal whose \<^verbatim>\<open>dispose\<close> throws, the first of three successive
  close calls throws, the registry still has its one entry, and a further close call in
  the state reached throws again.
\<close>

theorem close_once_dispose_throws_counterexample:
  "fmlookup (terminals faulty_page1) ''tool_nmap_123'' = Some \<lparr>terminal = 0, resizeObserver = 0\<rparr>
   \<and> fcard (fmdom (terminals faulty_page1)) = 1
   \<and> close_times 3 ''tool_nmap_123'' faulty_page1 =
       Throw (Error ''dispose failed'') (faulty_page1\<lparr>trace := trace faulty_page1 @ [Dispose 0]\<rparr>)
   \<and> fcard (fmdom (terminals (state_of (close_times 3 ''tool_nmap_123'' faulty_page1)))) = 1
   \<and> closeTerminal ''tool_nmap_123'' (state_of (close_times 3 ''tool_nmap_123'' faulty_page1)) =
       Throw (Error ''dispose failed'')
         (faulty_page1\<lparr>trace := trace faulty_page1 @ [Dispose 0, Dispose 0]\<rparr>)"
proof -
  have f: "fmlookup (terminals faulty_page1) ''tool_nmap_123'' = Some \<lparr>terminal = 0, resizeObserver = 0\<rparr>"
    "dispose_fault faulty_page1 0 = Some (Error ''dispose failed'')"
    "terminals faulty_page1 = fmupd ''tool_nmap_123'' \<lparr>terminal = 0, resizeObserver = 0\<rparr> fmempty"
    by (simp_all add: faulty_page1_def page1_terminals)
  have c: "closeTerminal ''tool_nmap_123'' faulty_page1 =
       Throw (Error ''dispose failed'') (faulty_page1\<lparr>trace := trace faulty_page1 @ [Dispose 0]\<rparr>)"
    using closeTerminal_fault [of faulty_page1 "''tool_nmap_123''" "\<lparr>terminal = 0, resizeObserver = 0\<rparr>"] f
    by simp
  have t: "close_times 3 ''tool_nmap_123'' faulty_page1 =
       Throw (Error ''dispose failed'') (faulty_page1\<lparr>trace := trace faulty_page1 @ [Dispose 0]\<rparr>)"
    by (simp add: numeral_3_eq_3 c)
  have c2: "closeTerminal ''tool_nmap_123'' (faulty_page1\<lparr>trace := trace faulty_page1 @ [Dispose 0]\<rparr>) =
       Throw (Error ''dispose failed'')
         (faulty_page1\<lparr>trace := trace faulty_page1 @ [Dispose 0, Dispose 0]\<rparr>)"
    using closeTerminal_fault [of "faulty_page1\<lparr>trace := trace faulty_page1 @ [Dispose 0]\<rparr>"
        "''tool_nmap_123''" "\<lparr>terminal = 0, resizeObserver = 0\<rparr>"] f
    by simp
  have n: "fcard (fmdom (terminals faulty_page1)) = 1"
    by (simp add: f(3) fcard_finsert_disjoint)
  show ?thesis by (simp add: t c2 n f(1))
qed

text \<open>
  Claim C5, as amended.  When the container does not resolve, \<^verbatim>\<open>createTerminal\<close> throws
  the container-not-found error, the registry is unchanged, no observer has been created
  and no event has been emitted.  When it resolves, the new emulator and its connected
  observer are held by the new registry entry.  A \<^verbatim>\<open>closeTerminal\<close> whose disposal returns
  leaves the emulator disposed, the observer disconnected and the entry absent.
\<close>

theorem create_failure_and_destroy_release:
  "(cid \<notin> set (containers s) \<longrightarrow>
      thrown (createTerminal sid cid s) = Some (Error (''Container '' @ cid @ '' not found''))
      \<and> terminals (state_of (createTerminal sid cid s)) = terminals s
      \<and> next_obs (state_of (createTerminal sid cid s)) = next_obs s
      \<and> observers (state_of (createTerminal sid cid s)) = observers s
      \<and> emitted (trace (state_of (createTerminal sid cid s))) = emitted (trace s))
   \<and> (cid \<in> set (containers s) \<longrightarrow>
        (\<exists>s'. createTerminal sid cid s = Normal s'
           \<and> fmlookup (terminals s') sid = Some \<lparr>terminal = next_emu s, resizeObserver = next_obs s\<rparr>
           \<and> \<not> disposed (emus s' (next_emu s)) \<and> connected (observers s' (next_obs s))))
   \<and> (fmlookup (terminals s) k = Some td \<and> dispose_fault s (terminal td) = None \<longrightarrow>
        (\<exists>s'. closeTerminal k s = Normal s'
           \<and> disposed (emus s' (terminal td))
           \<and> \<not> connected (observers s' (resizeObserver td))
           \<and> fmlookup (terminals s') k = None))"
  by (simp add: closeTerminal_ok createTerminal_found createTerminal_missing fresh_xterm_def)

theorem create_failure_and_destroy_release_witness:
  "''terminal-tool_nmap_123'' \<notin> set (containers (init_app no_faults))
   \<and> thrown (createTerminal ''tool_nmap_123'' ''terminal-tool_nmap_123'' (init_app no_faults))
        = Some (Error ''Container terminal-tool_nmap_123 not found'')
   \<and> terminals (state_of (createTerminal ''tool_nmap_123'' ''terminal-tool_nmap_123'' (init_app no_faults)))
        = terminals (init_app no_faults)
   \<and> ''terminal-tool_nmap_123'' \<in> set (containers page0)
   \<and> (\<exists>s'. createTerminal ''tool_nmap_123'' ''terminal-tool_nmap_123'' page0 = Normal s'
         \<and> fmlookup (terminals s') ''tool_nmap_123'' = Some \<lparr>terminal = 0, resizeObserver = 0\<rparr>)
   \<and> fmlookup (terminals page1) ''tool_nmap_123'' = Some \<lparr>terminal = 0, resizeObserver = 0\<rparr>
   \<and> dispose_fault page1 0 = None
   \<and> (\<exists>s'. closeTerminal ''tool_nmap_123'' page1 = Normal s'
         \<and> disposed (emus s' 0) \<and> \<not> connected (observers s' 0)
         \<and> fmlookup (terminals s') ''tool_nmap_123'' = None)"
proof -
  have a: "''terminal-tool_nmap_123'' \<notin> set (containers (init_app no_faults))"
    by (simp add: init_app_def)
  have b: "''terminal-tool_nmap_123'' \<in> set (containers page0)"
    and n: "next_emu page0 = 0" "next_obs page0 = 0"
    by (simp_all add: page0_def init_app_def)
  have c: "fmlookup (terminals page1) ''tool_nmap_123'' = Some \<lparr>terminal = 0, resizeObserver = 0\<rparr>
    \<and> dispose_fault page1 (terminal \<lparr>terminal = 0, resizeObserver = 0\<rparr>) = None"
    by (simp add: page1_eval no_faults_def)
  note t = create_failure_and_destroy_release
  have 1: "thrown (createTerminal ''tool_nmap_123'' ''terminal-tool_nmap_123'' (init_app no_faults))
        = Some (Error ''Container terminal-tool_nmap_123 not found'')
     \<and> terminals (state_of (createTerminal ''tool_nmap_123'' ''terminal-tool_nmap_123'' (init_app no_faults)))
        = terminals (init_app no_faults)"
    using t [THEN conjunct1, THEN mp, OF a, of "''tool_nmap_123''"] by simp
  have 2: "\<exists>s'. createTerminal ''tool_nmap_123'' ''terminal-tool_nmap_123'' page0 = Normal s'
         \<and> fmlookup (terminals s') ''tool_nmap_123'' = Some \<lparr>terminal = 0, resizeObserver = 0\<rparr>"
    using t [THEN conjunct2, THEN conjunct1, THEN mp, OF b, of "''tool_nmap_123''"] n by auto
  have 3: "\<exists>s'. closeTerminal ''tool_nmap_123'' page1 = Normal s'
         \<and> disposed (emus s' 0) \<and> \<not> connected (observers s' 0)
         \<and> fmlookup (terminals s') ''tool_nmap_123'' = None"
    using t [THEN conjunct2, THEN conjunct2, THEN mp, OF c] by simp
  show ?thesis using a b c 1 2 3 by simp
qed

text \<open>The claim as stated fails: the emulator is constructed before the container is
  looked up, so after the failed call one emulator exists that is neither disposed nor
  referred to by the registry.\<close>

theorem create_failure_leaks_emulator_counterexample:
  "''terminal-tool_nmap_123'' \<notin> set (containers (init_app no_faults))
   \<and> thrown (createTerminal ''tool_nmap_123'' ''terminal-tool_nmap_123'' (init_app no_faults))
        = Some (Error ''Container terminal-tool_nmap_123 not found'')
   \<and> next_emu (init_app no_faults) = 0
   \<and> next_emu (state_of (createTerminal ''tool_nmap_123'' ''terminal-tool_nmap_123'' (init_app no_faults))) = 1
   \<and> leaked (state_of (createTerminal ''tool_nmap_123'' ''terminal-tool_nmap_123'' (init_app no_faults))) 0"
  by (simp add: createTerminal_missing init_app_def leaked_def fresh_xterm_def)

lemma run_task_exec_found:
  assumes "cid \<in> set (containers s)"
  shows "\<exists>s'. run_task (Exec_Task sid cid nm) rp s = Normal s'
     \<and> trace s' = trace s @ [New_Terminal (next_emu s), Open_Terminal (next_emu s) cid,
                 New_Observer (next_obs s), Observe (next_obs s) cid, Registry_Set sid,
                 Emit (terminal_create sid), Emit (execute_tool nm (executionMode s))]
     \<and> fmlookup (terminals s') sid = Some \<lparr>terminal = next_emu s, resizeObserver = next_obs s\<rparr>"
  using assms by (simp add: createTerminal_found socket_emit_def record_action_def)

lemma run_task_exec_missing:
  assumes "cid \<notin> set (containers s)"
  shows "\<exists>s'. run_task (Exec_Task sid cid nm) rp s = Throw (Error (''Container '' @ cid @ '' not found'')) s'
     \<and> trace s' = trace s @ [New_Terminal (next_emu s)] \<and> terminals s' = terminals s"
  using assms by (simp add: createTerminal_missing)

lemma executeTool_sync:
  "executeTool nm now s =
     Normal (s\<lparr>activeTerminals := activeTerminals s @
                 [\<lparr>sessionId = ''tool_'' @ nm @ ''_'' @ show_nat now,
                   title = nm @ '' - '' @ executionMode s @ '' mode'', minimized = False\<rparr>],
               showToolModal := False,
               next_tick := next_tick s @
                 [Exec_Task (''tool_'' @ nm @ ''_'' @ show_nat now)
                    (''terminal-'' @ ''tool_'' @ nm @ ''_'' @ show_nat now) nm]\<rparr>)"
  by (simp add: executeTool_def push_terminal_def nextTick_def Let_def)

text \<open>
  Claim C6.  In the calls \<^verbatim>\<open>createTerminal\<close> makes, \<^verbatim>\<open>terminal_create\<close> is emitted only while
  the session is registered; when the container resolves the call returns with the session
  registered and exactly that one event emitted, and otherwise nothing is emitted.  For
  \<^verbatim>\<open>executeTool\<close> followed by the rendering of the DOM and the next tick, \<^verbatim>\<open>execute_tool\<close>
  is emitted only while the session \<^verbatim>\<open>tool_<name>_<timestamp>\<close> is registered: after
  \<^verbatim>\<open>terminal_create\<close> when the container is there, and not at all when it is not.
\<close>

theorem registered_before_announced:
  "registered_when_emitted sid (terminal_create sid) False
       (drop (length (trace s)) (trace (state_of (createTerminal sid cid s))))
   \<and> (cid \<in> set (containers s) \<longrightarrow>
        (\<exists>s'. createTerminal sid cid s = Normal s'
           \<and> fmlookup (terminals s') sid \<noteq> None
           \<and> emitted (drop (length (trace s)) (trace s')) = [terminal_create sid]))
   \<and> (cid \<notin> set (containers s) \<longrightarrow>
        emitted (drop (length (trace s)) (trace (state_of (createTerminal sid cid s)))) = [])
   \<and> (next_tick s = [] \<longrightarrow>
        registered_when_emitted (''tool_'' @ nm @ ''_'' @ show_nat now)
          (execute_tool nm (executionMode s)) False
          (drop (length (trace s))
             (trace (run [User_executeTool nm now, Dom_Rendered cs, Next_Tick rp] s))))
   \<and> (next_tick s = [] \<and> ''terminal-'' @ ''tool_'' @ nm @ ''_'' @ show_nat now \<in> set cs \<longrightarrow>
        fmlookup (terminals (run [User_executeTool nm now, Dom_Rendered cs, Next_Tick rp] s))
          (''tool_'' @ nm @ ''_'' @ show_nat now) \<noteq> None
        \<and> emitted (drop (length (trace s))
             (trace (run [User_executeTool nm now, Dom_Rendered cs, Next_Tick rp] s)))
           = [terminal_create (''tool_'' @ nm @ ''_'' @ show_nat now),
              execute_tool nm (executionMode s)])
   \<and> (next_tick s = [] \<and> ''terminal-'' @ ''tool_'' @ nm @ ''_'' @ show_nat now \<notin> set cs \<longrightarrow>
        emitted (drop (length (trace s))
             (trace (run [User_executeTool nm now, Dom_Rendered cs, Next_Tick rp] s))) = [])"
proof -
  let ?sid = "''tool_'' @ nm @ ''_'' @ show_nat now"
  let ?r = "run [User_executeTool nm now, Dom_Rendered cs, Next_Tick rp] s"
  have 1: "registered_when_emitted sid (terminal_create sid) False
       (drop (length (trace s)) (trace (state_of (createTerminal sid cid s))))"
    by (cases "cid \<in> set (containers s)")
       (simp_all add: createTerminal_found createTerminal_missing)
  have 2: "\<exists>s'. createTerminal sid cid s = Normal s'
           \<and> fmlookup (terminals s') sid \<noteq> None
           \<and> emitted (drop (length (trace s)) (trace s')) = [terminal_create sid]"
    if "cid \<in> set (containers s)"
    using that by (simp add: createTerminal_found)
  have 3: "emitted (drop (length (trace s)) (trace (state_of (createTerminal sid cid s)))) = []"
    if "cid \<notin> set (containers s)"
    using that by (simp add: createTerminal_missing)
  have 4: "registered_when_emitted ?sid (execute_tool nm (executionMode s)) False
          (drop (length (trace s)) (trace ?r))"
    if "next_tick s = []"
    using that
    by (cases "''terminal-'' @ ?sid \<in> set cs")
       (simp_all add: run_def executeTool_sync tick_def createTerminal_found
          createTerminal_missing socket_emit_def record_action_def)
  have 5: "fmlookup (terminals ?r) ?sid \<noteq> None
        \<and> emitted (drop (length (trace s)) (trace ?r))
           = [terminal_create ?sid, execute_tool nm (executionMode s)]"
    if "next_tick s = [] \<and> ''terminal-'' @ ?sid \<in> set cs"
    using that
    by (simp add: run_def executeTool_sync tick_def createTerminal_found
          socket_emit_def record_action_def)
  have 6: "emitted (drop (length (trace s)) (trace ?r)) = []"
    if "next_tick s = [] \<and> ''terminal-'' @ ?sid \<notin> set cs"
    using that by (simp add: run_def executeTool_sync tick_def createTerminal_missing)
  show ?thesis using 1 2 3 4 5 6 by blast
qed

theorem registered_before_announced_witness:
  "''terminal-tool_nmap_123'' \<in> set (containers page0)
   \<and> (\<exists>s'. createTerminal ''tool_nmap_123'' ''terminal-tool_nmap_123'' page0 = Normal s'
         \<and> fmlookup (terminals s') ''tool_nmap_123'' \<noteq> None
         \<and> emitted (drop (length (trace page0)) (trace s')) = [terminal_create ''tool_nmap_123''])
   \<and> ''terminal-tool_nmap_123'' \<notin> set (containers (init_app no_faults))
   \<and> emitted (drop (length (trace (init_app no_faults)))
        (trace (state_of (createTerminal ''tool_nmap_123'' ''terminal-tool_nmap_123''
                            (init_app no_faults))))) = []
   \<and> next_tick (init_app no_faults) = []
   \<and> registered_when_emitted ''tool_nmap_123'' (execute_tool ''nmap'' ''guided'') False (trace page2)
   \<and> fmlookup (terminals page2) ''tool_nmap_123'' \<noteq> None
   \<and> emitted (trace page2) = [terminal_create ''tool_nmap_123'', execute_tool ''nmap'' ''guided'']
   \<and> emitted (trace (run [User_executeTool ''nmap'' 123, Dom_Rendered [], Next_Tick quiet_replies]
                        (init_app no_faults))) = []"
proof -
  note t = registered_before_announced
  have a: "''terminal-tool_nmap_123'' \<in> set (containers page0)"
    by (simp add: page0_def init_app_def)
  have b: "''terminal-tool_nmap_123'' \<notin> set (containers (init_app no_faults))"
    by (simp add: init_app_def)
  have q: "next_tick (init_app no_faults) = []" "trace (init_app no_faults) = []"
    "executionMode (init_app no_faults) = ''guided''"
    by (simp_all add: init_app_def)
  have c: "next_tick (init_app no_faults) = []
      \<and> ''terminal-'' @ ''tool_'' @ ''nmap'' @ ''_'' @ show_nat 123 \<in> set [''terminal-tool_nmap_123'']"
    by (simp add: init_app_def show_nat_123)
  have d: "next_tick (init_app no_faults) = []
      \<and> ''terminal-'' @ ''tool_'' @ ''nmap'' @ ''_'' @ show_nat 123 \<notin> set []"
    by (simp add: init_app_def)
  have 2: "\<exists>s'. createTerminal ''tool_nmap_123'' ''terminal-tool_nmap_123'' page0 = Normal s'
         \<and> fmlookup (terminals s') ''tool_nmap_123'' \<noteq> None
         \<and> emitted (drop (length (trace page0)) (trace s')) = [terminal_create ''tool_nmap_123'']"
    using t [THEN conjunct2, THEN conjunct1, THEN mp, OF a] by blast
  have 3: "emitted (drop (length (trace (init_app no_faults)))
        (trace (state_of (createTerminal ''tool_nmap_123'' ''terminal-tool_nmap_123''
                            (init_app no_faults))))) = []"
    using t [THEN conjunct2, THEN conjunct2, THEN conjunct1, THEN mp, OF b] by blast
  have 4: "registered_when_emitted ''tool_nmap_123'' (execute_tool ''nmap'' ''guided'') False (trace page2)"
    using t [THEN conjunct2, THEN conjunct2, THEN conjunct2, THEN conjunct1, THEN mp, OF q(1),
             of "''nmap''" 123 "[''terminal-tool_nmap_123'']" quiet_replies]
    by (simp add: q show_nat_123 page2_def)
  have 5: "fmlookup (terminals page2) ''tool_nmap_123'' \<noteq> None
     \<and> emitted (trace page2) = [terminal_create ''tool_nmap_123'', execute_tool ''nmap'' ''guided'']"
    using t [THEN conjunct2, THEN conjunct2, THEN conjunct2, THEN conjunct2, THEN conjunct1,
             THEN mp, OF c, of quiet_replies]
    by (simp add: q show_nat_123 page2_def)
  have 6: "emitted (trace (run [User_executeTool ''nmap'' 123, Dom_Rendered [], Next_Tick quiet_replies]
                        (init_app no_faults))) = []"
    using t [THEN conjunct2, THEN conjunct2, THEN conjunct2, THEN conjunct2, THEN conjunct2,
             THEN mp, OF d, of quiet_replies]
    by (simp add: q)
  show ?thesis using a b q(1) 2 3 4 5 6 by simp
qed

subsection \<open>The notification sink, the execution mode, and failed actions\<close>

lemma shell_updates [simp]:
  "shell (s\<lparr>trace := tr\<rparr>) = shell s"
  "shell (s\<lparr>activeTerminals := ats\<rparr>) = shell s"
  "shell (s\<lparr>next_tick := q\<rparr>) = shell s"
  "shell (s\<lparr>unhandled := u\<rparr>) = shell s"
  "shell (s\<lparr>containers := cs\<rparr>) = shell s"
  "shell (s\<lparr>showToolModal := b\<rparr>) = shell s"
  "shell (s\<lparr>emus := em\<rparr>) = shell s"
  "shell (s\<lparr>activeView := v\<rparr>) = shell s"
  "shell (s\<lparr>showSessionModal := b\<rparr>) = shell s"
  "shell (s\<lparr>selectedTool := st\<rparr>) = shell s"
  "shell (s\<lparr>selectedSession := ss\<rparr>) = shell s"
  by (simp_all add: shell_def)

lemma shell_emit [simp]: "shell (socket_emit e s) = shell s"
  by (simp add: socket_emit_def record_action_def)

lemma shell_fold_emit: "shell (fold (\<lambda>sid. socket_emit (f sid)) xs s) = shell s"
  by (induction xs arbitrary: s) simp_all

lemma shell_key_input [simp]: "shell (key_input t d s) = shell s"
  by (simp add: key_input_def shell_fold_emit)

lemma shell_surface_resized [simp]: "shell (surface_resized ob r c s) = shell s"
  by (simp add: surface_resized_def Let_def)

lemma shell_minimizeTerminal [simp]: "shell (minimizeTerminal sid s) = shell s"
  by (simp add: minimizeTerminal_def)

lemma shell_executeTool [simp]: "shell (state_of (executeTool nm now s)) = shell s"
  by (simp add: executeTool_sync)

lemma installTool_sync:
  "installTool nm now s =
     Normal (s\<lparr>activeTerminals := activeTerminals s @
                 [\<lparr>sessionId = ''install_'' @ nm @ ''_'' @ show_nat now,
                   title = ''Installing '' @ nm, minimized = False\<rparr>],
               next_tick := next_tick s @
                 [Install_Task (''install_'' @ nm @ ''_'' @ show_nat now)
                    (''terminal-'' @ ''install_'' @ nm @ ''_'' @ show_nat now) nm]\<rparr>)"
  by (simp add: installTool_def push_terminal_def nextTick_def Let_def)

lemma removeTool_sync:
  "removeTool nm now s =
     Normal (s\<lparr>activeTerminals := activeTerminals s @
                 [\<lparr>sessionId = ''remove_'' @ nm @ ''_'' @ show_nat now,
                   title = ''Removing '' @ nm, minimized = False\<rparr>],
               next_tick := next_tick s @
                 [Remove_Task (''remove_'' @ nm @ ''_'' @ show_nat now)
                    (''terminal-'' @ ''remove_'' @ nm @ ''_'' @ show_nat now) nm]\<rparr>)"
  by (simp add: removeTool_def push_terminal_def nextTick_def Let_def)

lemma shell_installTool [simp]: "shell (state_of (installTool nm now s)) = shell s"
  by (simp add: installTool_sync)

lemma shell_removeTool [simp]: "shell (state_of (removeTool nm now s)) = shell s"
  by (simp add: removeTool_sync)

lemma shell_post_tool [simp]: "shell (state_of (post_tool nm act msg r s)) = shell s"
  by (simp add: post_tool_def record_action_def Let_def split: fetch_result.splits)

lemma shell_run_task [simp]: "shell (state_of (run_task t rp s)) = shell s"
proof (cases t)
  case (Exec_Task sid cid nm)
  then show ?thesis
    by (auto intro!: shell_and_then)
next
  case (Install_Task sid cid nm)
  then show ?thesis by (auto intro!: shell_and_then)
next
  case (Remove_Task sid cid nm)
  then show ?thesis by (auto intro!: shell_and_then)
qed

lemma shell_tick [simp]: "shell (tick rp s) = shell s"
proof (cases "next_tick s")
  case Nil
  then show ?thesis by (simp add: tick_def)
next
  case (Cons t ts)
  have "shell (state_of (run_task t rp (s\<lparr>next_tick := ts\<rparr>))) = shell s"
    by simp
  then show ?thesis using Cons
    by (cases "run_task t rp (s\<lparr>next_tick := ts\<rparr>)") (simp_all add: tick_def)
qed

lemma shell_app_closeTerminal [simp]: "shell (state_of (app_closeTerminal sid s)) = shell s"
  unfolding app_closeTerminal_def
  by (rule shell_and_then) (simp_all add: Let_def)

lemma shell_handle:
  "shell (handle x s) = shell s \<or> (\<exists>err. x = Socket_terminal_error err)
     \<or> x = User_toggleExecutionMode \<or> (\<exists>T. x = Time_Passes T)"
  by (cases x)
     (simp_all add: on_terminal_output_def on_terminal_created_def on_terminal_closed_def
        toggleView_def closeModals_def getToolDetails_def getSessionDetails_def
        split: option.splits)

lemma run_snoc: "run (ins @ [x]) s = handle x (run ins s)"
  by (simp add: run_def)

lemma run_append: "run (xs @ ys) s = run ys (run xs s)"
  by (simp add: run_def)

lemma fold_fire_fields:
  "notifications (fold fire ks s) =
     filter (\<lambda>n. Remove_Notification (nid n) \<notin> set ks) (notifications s)"
  "notificationId (fold fire ks s) = notificationId s"
  "timers (fold fire ks s) = timers s"
  "clock (fold fire ks s) = clock s"
  "executionMode (fold fire ks s) = executionMode s"
proof (induction ks arbitrary: s)
  case Nil
  { case 1 show ?case by simp }
  { case 2 show ?case by simp }
  { case 3 show ?case by simp }
  { case 4 show ?case by simp }
  { case 5 show ?case by simp }
next
  case (Cons k ks)
  obtain i where k: "k = Remove_Notification i" by (cases k)
  { case 1 show ?case by (simp add: k Cons.IH(1)) }
  { case 2 show ?case by (simp add: k Cons.IH(2)) }
  { case 3 show ?case by (simp add: k Cons.IH(3)) }
  { case 4 show ?case by (simp add: k Cons.IH(4)) }
  { case 5 show ?case by (simp add: k Cons.IH(5)) }
qed

lemma advance_fields:
  assumes "clock s \<le> T"
  shows "notifications (advance T s) =
      filter (\<lambda>n. Remove_Notification (nid n) \<notin> due_by T s) (notifications s)"
    and "notificationId (advance T s) = notificationId s"
    and "timers (advance T s) = filter (\<lambda>(d, k). \<not> d \<le> T) (timers s)"
    and "clock (advance T s) = T"
    and "executionMode (advance T s) = executionMode s"
proof -
  have "set (map snd (sort_key fst (filter (\<lambda>(d, k). d \<le> T) (timers s)))) = due_by T s"
    by (auto simp: due_by_def image_iff)
  then show "notifications (advance T s) =
      filter (\<lambda>n. Remove_Notification (nid n) \<notin> due_by T s) (notifications s)"
    using assms by (simp add: advance_def Let_def fold_fire_fields del: set_map)
  show "notificationId (advance T s) = notificationId s"
    "timers (advance T s) = filter (\<lambda>(d, k). \<not> d \<le> T) (timers s)"
    "clock (advance T s) = T"
    "executionMode (advance T s) = executionMode s"
    using assms by (simp_all add: advance_def Let_def fold_fire_fields)
qed

lemma advance_past: "T < clock s \<Longrightarrow> advance T s = s"
  by (simp add: advance_def)

lemma showNotification_fields:
  "notifications (showNotification m k s) =
     notifications s @ [\<lparr>nid = notificationId s, message = m, ntype = k\<rparr>]"
  "notificationId (showNotification m k s) = js_incr (notificationId s)"
  "timers (showNotification m k s) =
     timers s @ [(clock s + 3000, Remove_Notification (notificationId s))]"
  "clock (showNotification m k s) = clock s"
  "executionMode (showNotification m k s) = executionMode s"
  by (simp_all add: showNotification_def Let_def)

lemma js_incr_ge: "n \<le> js_incr n"
  by (simp add: js_incr_def)

lemma js_incr_exact: "n < 2 ^ 53 \<Longrightarrow> js_incr n = Suc n"
  by (simp add: js_incr_def)

lemma handle_error:
  "handle (Socket_terminal_error err) s = showNotification err ''error'' s"
  by (simp add: on_terminal_error_def)

text \<open>A step either leaves the shell alone, raises a notification, toggles the mode, or
  lets time pass.\<close>

lemma mode_handle:
  "executionMode (handle x s) = executionMode s \<or> x = User_toggleExecutionMode"
proof -
  consider "shell (handle x s) = shell s" | err where "x = Socket_terminal_error err"
    | "x = User_toggleExecutionMode" | T where "x = Time_Passes T"
    using shell_handle by blast
  then show ?thesis
  proof cases
    case 1 then show ?thesis by (simp add: shell_def)
  next
    case 2 then show ?thesis by (simp add: handle_error showNotification_fields del: handle.simps)
  next
    case 3 then show ?thesis by simp
  next
    case 4 then show ?thesis
      by (cases "T < clock s") (simp_all add: advance_past advance_fields)
  qed
qed

lemma mode_run: "executionMode (run ins (init_app f)) \<in> {''guided'', ''direct''}"
proof (induction ins rule: rev_induct)
  case Nil
  then show ?case by (simp add: run_def init_app_def)
next
  case (snoc x xs)
  then show ?case
    using mode_handle [of x "run xs (init_app f)"]
    by (auto simp: run_snoc toggleExecutionMode_def)
qed

text \<open>
  Claim C10.  The execution mode is \<^verbatim>\<open>guided\<close> initially and is \<^verbatim>\<open>guided\<close> or \<^verbatim>\<open>direct\<close> after
  every run of the application.  \<^verbatim>\<open>toggleExecutionMode\<close> maps \<^verbatim>\<open>direct\<close> to \<^verbatim>\<open>guided\<close> and every
  other value to \<^verbatim>\<open>direct\<close>; applied twice to a state with one of the two modes, and so to
  every reachable state, it gives the state back.
\<close>

theorem execution_mode_two_valued_involution:
  "executionMode (init_app f) = ''guided''
   \<and> executionMode (run ins (init_app f)) \<in> {''guided'', ''direct''}
   \<and> (executionMode s = ''direct'' \<longrightarrow> executionMode (toggleExecutionMode s) = ''guided'')
   \<and> (executionMode s \<noteq> ''direct'' \<longrightarrow> executionMode (toggleExecutionMode s) = ''direct'')
   \<and> (executionMode s \<in> {''guided'', ''direct''} \<longrightarrow>
        toggleExecutionMode (toggleExecutionMode s) = s)
   \<and> toggleExecutionMode (toggleExecutionMode (run ins (init_app f))) = run ins (init_app f)"
proof -
  have inv: "toggleExecutionMode (toggleExecutionMode r) = r"
    if "executionMode r \<in> {''guided'', ''direct''}" for r
    using that by (auto simp: toggleExecutionMode_def)
  show ?thesis
    using mode_run [of ins f] inv
    by (simp add: init_app_def toggleExecutionMode_def)
qed

theorem execution_mode_two_valued_involution_witness:
  "executionMode (init_app no_faults) \<noteq> ''direct''
   \<and> executionMode (toggleExecutionMode (init_app no_faults)) = ''direct''
   \<and> executionMode (toggleExecutionMode (toggleExecutionMode (init_app no_faults))) = ''guided''
   \<and> executionMode (init_app no_faults) \<in> {''guided'', ''direct''}
   \<and> toggleExecutionMode (toggleExecutionMode (init_app no_faults)) = init_app no_faults
   \<and> executionMode (run [User_toggleExecutionMode, User_executeTool ''nmap'' 123]
                       (init_app no_faults)) = ''direct''"
proof -
  note t = execution_mode_two_valued_involution
  have a: "executionMode (init_app no_faults) \<noteq> ''direct''"
    "executionMode (init_app no_faults) \<in> {''guided'', ''direct''}"
    by (simp_all add: init_app_def)
  have 1: "executionMode (toggleExecutionMode (init_app no_faults)) = ''direct''"
    using t [of no_faults "[]" "init_app no_faults"] a by blast
  have 2: "executionMode (toggleExecutionMode (toggleExecutionMode (init_app no_faults))) = ''guided''"
    using t [of no_faults "[]" "toggleExecutionMode (init_app no_faults)"] 1 by blast
  have 3: "toggleExecutionMode (toggleExecutionMode (init_app no_faults)) = init_app no_faults"
    using t [of no_faults "[]" "init_app no_faults"] a by blast
  have 4: "executionMode (run [User_toggleExecutionMode, User_executeTool ''nmap'' 123]
                       (init_app no_faults)) = ''direct''"
    by (simp add: run_def executeTool_sync toggleExecutionMode_def init_app_def)
  show ?thesis using a 1 2 3 4 by simp
qed

lemma ids_below_shell: "shell a = shell b \<Longrightarrow> ids_below a = ids_below b"
  by (simp add: shell_def ids_below_def)

lemma live_shell: "shell a = shell b \<Longrightarrow> live t0 e a = live t0 e b"
  by (simp add: shell_def live_def)

lemma shell_toggle:
  "notifications (toggleExecutionMode s) = notifications s"
  "notificationId (toggleExecutionMode s) = notificationId s"
  "timers (toggleExecutionMode s) = timers s"
  "clock (toggleExecutionMode s) = clock s"
  by (simp_all add: toggleExecutionMode_def)

lemma ids_below_show: "ids_below s \<Longrightarrow> ids_below (showNotification m k s)"
  unfolding ids_below_def showNotification_fields js_incr_def
  by (auto split: if_splits simp: less_Suc_eq)

lemma ids_below_advance: "ids_below s \<Longrightarrow> ids_below (advance T s)"
proof (cases "T < clock s")
  case True
  then show "ids_below s \<Longrightarrow> ids_below (advance T s)" by (simp add: advance_past)
next
  case False
  then have c: "clock s \<le> T" by simp
  show "ids_below s \<Longrightarrow> ids_below (advance T s)"
    unfolding ids_below_def advance_fields [OF c] by auto
qed

lemma ids_below_handle: "ids_below s \<Longrightarrow> ids_below (handle x s)"
proof -
  assume a: "ids_below s"
  consider "shell (handle x s) = shell s" | err where "x = Socket_terminal_error err"
    | "x = User_toggleExecutionMode" | T where "x = Time_Passes T"
    using shell_handle by blast
  then show ?thesis
  proof cases
    case 1 then show ?thesis using a ids_below_shell by blast
  next
    case 2 then show ?thesis using a by (simp add: handle_error ids_below_show del: handle.simps)
  next
    case 3 then show ?thesis using a by (simp add: ids_below_def shell_toggle)
  next
    case 4 then show ?thesis using a by (simp add: ids_below_advance)
  qed
qed

lemma ids_below_run: "ids_below (run ins (init_app f))"
proof (induction ins rule: rev_induct)
  case Nil
  then show ?case by (simp add: run_def init_app_def ids_below_def)
next
  case (snoc x xs)
  then show ?case by (simp add: run_snoc ids_below_handle)
qed

lemma live_start:
  assumes "ids_below s" and "notificationId s < 2 ^ 53"
  shows "live (clock s) \<lparr>nid = notificationId s, message = m, ntype = k\<rparr> (showNotification m k s)"
  using assms unfolding live_def ids_below_def showNotification_fields
  by (auto simp: js_incr_exact)

lemma live_show: "live t0 e x \<Longrightarrow> live t0 e (showNotification m k x)"
  unfolding live_def showNotification_fields
  using js_incr_ge [of "notificationId x"] by auto

lemma live_advance: "live t0 e x \<Longrightarrow> live t0 e (advance T x)"
proof (cases "T < clock x")
  case True
  then show "live t0 e x \<Longrightarrow> live t0 e (advance T x)" by (simp add: advance_past)
next
  case False
  then have c: "clock x \<le> T" by simp
  assume l: "live t0 e x"
  show "live t0 e (advance T x)"
  proof (cases "T < t0 + 3000")
    case True
    with c have before: "clock x < t0 + 3000" by simp
    have "Remove_Notification (nid e) \<notin> due_by T x"
      using l before True by (fastforce simp: live_def due_by_def)
    then show ?thesis
      using l before True unfolding live_def advance_fields [OF c] by auto
  next
    case False
    then have after: "t0 + 3000 \<le> T" by simp
    have "\<forall>n\<in>set (notifications (advance T x)). nid n \<noteq> nid e"
    proof (cases "clock x < t0 + 3000")
      case True
      then have "Remove_Notification (nid e) \<in> due_by T x"
        using l after by (auto simp: live_def due_by_def)
      then show ?thesis unfolding advance_fields [OF c] by auto
    next
      case False
      then show ?thesis using l unfolding live_def advance_fields [OF c] by auto
    qed
    then show ?thesis
      using l after unfolding live_def by (simp add: advance_fields [OF c])
  qed
qed

lemma live_handle: "live t0 e s \<Longrightarrow> live t0 e (handle x s)"
proof -
  assume a: "live t0 e s"
  consider "shell (handle x s) = shell s" | err where "x = Socket_terminal_error err"
    | "x = User_toggleExecutionMode" | T where "x = Time_Passes T"
    using shell_handle by blast
  then show ?thesis
  proof cases
    case 1 then show ?thesis using a live_shell by blast
  next
    case 2 then show ?thesis using a by (simp add: handle_error live_show del: handle.simps)
  next
    case 3 then show ?thesis using a by (simp add: live_def shell_toggle)
  next
    case 4 then show ?thesis using a by (simp add: live_advance)
  qed
qed

lemma live_run: "live t0 e s \<Longrightarrow> live t0 e (run ins s)"
proof (induction ins rule: rev_induct)
  case Nil
  then show ?case by (simp add: run_def)
next
  case (snoc x xs)
  then show ?case by (simp add: run_snoc live_handle)
qed

text \<open>
  Claim C9.  Let \<^verbatim>\<open>showNotification\<close> be called in a reachable state whose counter is below
  \<open>2^53\<close> (where the increment of a JavaScript number is exact).  The call appends the
  entry with the current counter as id, schedules the removal of that id 3000 ms after the
  current clock, and advances the counter by one.  The id is greater than the id of every
  entry in the list, and the counter, which is the id of any later call, stays greater than
  it in every continuation.  In every continuation the entry is in the list while the
  clock is below the time of the call plus 3000, hence at 2999; and once the clock has
  reached that time plus 3000, hence at 3001, no entry with that id is in the list.
\<close>

theorem notification_id_and_ttl:
  "notificationId (run pre (init_app f)) < 2 ^ 53 \<longrightarrow>
     (let s = run pre (init_app f);
          i = notificationId s;
          s' = showNotification m k s;
          x = run ins s'
      in notifications s' = notifications s @ [\<lparr>nid = i, message = m, ntype = k\<rparr>]
       \<and> timers s' = timers s @ [(clock s + 3000, Remove_Notification i)]
       \<and> notificationId s' = i + 1
       \<and> (\<forall>n\<in>set (notifications s). nid n < i)
       \<and> i < notificationId x
       \<and> (clock x < clock s + 3000 \<longrightarrow>
            \<lparr>nid = i, message = m, ntype = k\<rparr> \<in> set (notifications x))
       \<and> (clock s + 3000 \<le> clock x \<longrightarrow> (\<forall>n\<in>set (notifications x). nid n \<noteq> i)))"
proof
  let ?s = "run pre (init_app f)"
  let ?e = "\<lparr>nid = notificationId ?s, message = m, ntype = k\<rparr>"
  assume b: "notificationId ?s < 2 ^ 53"
  have r: "ids_below ?s" by (rule ids_below_run)
  have "live (clock ?s) ?e (run ins (showNotification m k ?s))"
    using live_start [OF r b] by (rule live_run)
  moreover have "\<forall>n\<in>set (notifications ?s). nid n < notificationId ?s"
    using r b by (simp add: ids_below_def)
  ultimately show "let s = ?s; i = notificationId s; s' = showNotification m k s; x = run ins s'
      in notifications s' = notifications s @ [\<lparr>nid = i, message = m, ntype = k\<rparr>]
       \<and> timers s' = timers s @ [(clock s + 3000, Remove_Notification i)]
       \<and> notificationId s' = i + 1
       \<and> (\<forall>n\<in>set (notifications s). nid n < i)
       \<and> i < notificationId x
       \<and> (clock x < clock s + 3000 \<longrightarrow>
            \<lparr>nid = i, message = m, ntype = k\<rparr> \<in> set (notifications x))
       \<and> (clock s + 3000 \<le> clock x \<longrightarrow> (\<forall>n\<in>set (notifications x). nid n \<noteq> i))"
    using b by (simp add: Let_def live_def showNotification_fields js_incr_exact)
qed

theorem notification_id_and_ttl_witness:
  "notificationId (run [] (init_app no_faults)) < 2 ^ 53
   \<and> notifications notified = [\<lparr>nid = 0, message = ''Scan failed'', ntype = ''error''\<rparr>]
   \<and> timers notified = [(3000, Remove_Notification 0)]
   \<and> notificationId notified = 1
   \<and> 0 < notificationId (run [Socket_terminal_error ''again''] notified)
   \<and> clock (run [Time_Passes 2999] notified) < clock (init_app no_faults) + 3000
   \<and> \<lparr>nid = 0, message = ''Scan failed'', ntype = ''error''\<rparr>
        \<in> set (notifications (run [Time_Passes 2999] notified))
   \<and> clock (init_app no_faults) + 3000 \<le> clock (run [Time_Passes 3001] notified)
   \<and> \<lparr>nid = 0, message = ''Scan failed'', ntype = ''error''\<rparr>
        \<notin> set (notifications (run [Time_Passes 3001] notified))"
proof -
  have z: "run [] (init_app no_faults) = init_app no_faults" by (simp add: run_def)
  have i: "notificationId (init_app no_faults) = 0" "clock (init_app no_faults) = 0"
    "notifications (init_app no_faults) = []" "timers (init_app no_faults) = []"
    by (simp_all add: init_app_def)
  have b: "notificationId (run [] (init_app no_faults)) < 2 ^ 53" by (simp add: z i)
  have c1: "clock (run [Time_Passes 2999] notified) = 2999"
    by (simp add: run_def notified_def advance_fields showNotification_fields i)
  have c2: "clock (run [Time_Passes 3001] notified) = 3001"
    by (simp add: run_def notified_def advance_fields showNotification_fields i)
  note t = notification_id_and_ttl [THEN mp, OF b, unfolded Let_def z i,
      of "''Scan failed''" "''error''", folded notified_def]
  have 1: "notifications notified = [\<lparr>nid = 0, message = ''Scan failed'', ntype = ''error''\<rparr>]"
    "timers notified = [(3000, Remove_Notification 0)]" "notificationId notified = 1"
    using t [of "[]"] by simp_all
  have 2: "0 < notificationId (run [Socket_terminal_error ''again''] notified)"
    using t [of "[Socket_terminal_error ''again'']"] by blast
  have 3: "\<lparr>nid = 0, message = ''Scan failed'', ntype = ''error''\<rparr>
        \<in> set (notifications (run [Time_Passes 2999] notified))"
    using t [of "[Time_Passes 2999]"] c1 by simp
  have 4: "\<lparr>nid = 0, message = ''Scan failed'', ntype = ''error''\<rparr>
        \<notin> set (notifications (run [Time_Passes 3001] notified))"
    using t [of "[Time_Passes 3001]"] c2 by auto
  show ?thesis using b 1 2 3 4 c1 c2 i by simp
qed

lemma tick_single:
  "next_tick s = [t] \<Longrightarrow>
     tick rp s = settle (run_task t rp (s\<lparr>next_tick := []\<rparr>))"
  by (cases "run_task t rp (s\<lparr>next_tick := []\<rparr>)") (simp_all add: tick_def)

lemma settle_fields:
  "notifications (settle c) = notifications (state_of c)"
  "unhandled (settle c) = unhandled (state_of c) @ (case thrown c of None \<Rightarrow> [] | Some e \<Rightarrow> [e])"
  by (cases c; simp)+

lemma post_tool_failed:
  "fetch_failed r \<Longrightarrow>
     \<exists>e. post_tool nm act msg r s =
       Throw e (s\<lparr>trace := trace s @ [Http_Post (''/api/tool/'' @ nm) act]\<rparr>)
       \<and> (\<forall>status body. r = Responds status body \<longrightarrow> e = Error msg)"
  by (cases r) (simp_all add: post_tool_def record_action_def Let_def)

lemma run_task_install_failed:
  assumes "fetch_failed (r_post rp)"
  shows "\<exists>e s'. run_task (Install_Task sid cid nm) rp s = Throw e s'
     \<and> notifications s' = notifications s \<and> unhandled s' = unhandled s
     \<and> (cid \<in> set (containers s) \<and> (\<exists>status body. r_post rp = Responds status body)
          \<longrightarrow> e = Error ''Installation failed'')"
proof (cases "cid \<in> set (containers s)")
  case True
  obtain e where e: "\<And>s1. post_tool nm ''install'' ''Installation failed'' (r_post rp) s1 =
       Throw e (s1\<lparr>trace := trace s1 @ [Http_Post (''/api/tool/'' @ nm) ''install'']\<rparr>)"
    "\<forall>status body. r_post rp = Responds status body \<longrightarrow> e = Error ''Installation failed''"
    using assms by (cases "r_post rp") (simp_all add: post_tool_def record_action_def Let_def)
  show ?thesis using True e by (auto simp: createTerminal_found)
next
  case False
  then show ?thesis by (simp add: createTerminal_missing)
qed

lemma run_task_remove_failed:
  assumes "fetch_failed (r_post rp)"
  shows "\<exists>e s'. run_task (Remove_Task sid cid nm) rp s = Throw e s'
     \<and> notifications s' = notifications s \<and> unhandled s' = unhandled s
     \<and> (cid \<in> set (containers s) \<and> (\<exists>status body. r_post rp = Responds status body)
          \<longrightarrow> e = Error ''Removal failed'')"
proof (cases "cid \<in> set (containers s)")
  case True
  obtain e where e: "\<And>s1. post_tool nm ''remove'' ''Removal failed'' (r_post rp) s1 =
       Throw e (s1\<lparr>trace := trace s1 @ [Http_Post (''/api/tool/'' @ nm) ''remove'']\<rparr>)"
    "\<forall>status body. r_post rp = Responds status body \<longrightarrow> e = Error ''Removal failed''"
    using assms by (cases "r_post rp") (simp_all add: post_tool_def record_action_def Let_def)
  show ?thesis using True e by (auto simp: createTerminal_found)
next
  case False
  then show ?thesis by (simp add: createTerminal_missing)
qed

text \<open>
  Claim C4 against the code.  The call of \<^verbatim>\<open>installTool\<close> or \<^verbatim>\<open>removeTool\<close> itself returns
  without raising a notification; its \<^verbatim>\<open>catch\<close> has nothing to catch.  When the queued
  callback then runs and the \<^verbatim>\<open>POST\<close> fails (it rejects or answers non-2xx), the callback
  throws: no notification is raised and the error is left as an unhandled rejection, which
  for an answered request with the container rendered is \<^verbatim>\<open>Installation failed\<close> or
  \<^verbatim>\<open>Removal failed\<close>.
\<close>

theorem action_failure_escapes_catch:
  "next_tick s = [] \<and> fetch_failed (r_post rp) \<longrightarrow>
     thrown (installTool nm now s) = None
     \<and> notifications (state_of (installTool nm now s)) = notifications s
     \<and> notifications (run [User_installTool nm now, Dom_Rendered cs, Next_Tick rp] s)
         = notifications s
     \<and> (\<exists>e. unhandled (run [User_installTool nm now, Dom_Rendered cs, Next_Tick rp] s)
           = unhandled s @ [e]
          \<and> (''terminal-'' @ ''install_'' @ nm @ ''_'' @ show_nat now \<in> set cs
               \<and> (\<exists>status body. r_post rp = Responds status body)
               \<longrightarrow> e = Error ''Installation failed''))
     \<and> thrown (removeTool nm now s) = None
     \<and> notifications (state_of (removeTool nm now s)) = notifications s
     \<and> notifications (run [User_removeTool nm now, Dom_Rendered cs, Next_Tick rp] s)
         = notifications s
     \<and> (\<exists>e. unhandled (run [User_removeTool nm now, Dom_Rendered cs, Next_Tick rp] s)
           = unhandled s @ [e]
          \<and> (''terminal-'' @ ''remove_'' @ nm @ ''_'' @ show_nat now \<in> set cs
               \<and> (\<exists>status body. r_post rp = Responds status body)
               \<longrightarrow> e = Error ''Removal failed''))"
proof
  assume a: "next_tick s = [] \<and> fetch_failed (r_post rp)"
  let ?isid = "''install_'' @ nm @ ''_'' @ show_nat now"
  let ?rsid = "''remove_'' @ nm @ ''_'' @ show_nat now"
  define si where "si = (state_of (installTool nm now s))\<lparr>containers := cs, next_tick := []\<rparr>"
  define sr where "sr = (state_of (removeTool nm now s))\<lparr>containers := cs, next_tick := []\<rparr>"
  have ri: "run [User_installTool nm now, Dom_Rendered cs, Next_Tick rp] s
      = settle (run_task (Install_Task ?isid (''terminal-'' @ ?isid) nm) rp si)"
    using a by (simp add: run_def installTool_sync tick_single si_def)
  have rr: "run [User_removeTool nm now, Dom_Rendered cs, Next_Tick rp] s
      = settle (run_task (Remove_Task ?rsid (''terminal-'' @ ?rsid) nm) rp sr)"
    using a by (simp add: run_def removeTool_sync tick_single sr_def)
  have fi: "notifications si = notifications s" "unhandled si = unhandled s" "containers si = cs"
    by (simp_all add: si_def installTool_sync)
  have fr: "notifications sr = notifications s" "unhandled sr = unhandled s" "containers sr = cs"
    by (simp_all add: sr_def removeTool_sync)
  from a obtain e1 s1 where 1:
    "run_task (Install_Task ?isid (''terminal-'' @ ?isid) nm) rp si = Throw e1 s1"
    "notifications s1 = notifications si" "unhandled s1 = unhandled si"
    "''terminal-'' @ ?isid \<in> set (containers si) \<and> (\<exists>status body. r_post rp = Responds status body)
          \<longrightarrow> e1 = Error ''Installation failed''"
    using run_task_install_failed [of rp ?isid "''terminal-'' @ ?isid" nm si] by blast
  from a obtain e2 s2 where 2:
    "run_task (Remove_Task ?rsid (''terminal-'' @ ?rsid) nm) rp sr = Throw e2 s2"
    "notifications s2 = notifications sr" "unhandled s2 = unhandled sr"
    "''terminal-'' @ ?rsid \<in> set (containers sr) \<and> (\<exists>status body. r_post rp = Responds status body)
          \<longrightarrow> e2 = Error ''Removal failed''"
    using run_task_remove_failed [of rp ?rsid "''terminal-'' @ ?rsid" nm sr] by blast
  show "thrown (installTool nm now s) = None
     \<and> notifications (state_of (installTool nm now s)) = notifications s
     \<and> notifications (run [User_installTool nm now, Dom_Rendered cs, Next_Tick rp] s)
         = notifications s
     \<and> (\<exists>e. unhandled (run [User_installTool nm now, Dom_Rendered cs, Next_Tick rp] s)
           = unhandled s @ [e]
          \<and> (''terminal-'' @ ''install_'' @ nm @ ''_'' @ show_nat now \<in> set cs
               \<and> (\<exists>status body. r_post rp = Responds status body)
               \<longrightarrow> e = Error ''Installation failed''))
     \<and> thrown (removeTool nm now s) = None
     \<and> notifications (state_of (removeTool nm now s)) = notifications s
     \<and> notifications (run [User_removeTool nm now, Dom_Rendered cs, Next_Tick rp] s)
         = notifications s
     \<and> (\<exists>e. unhandled (run [User_removeTool nm now, Dom_Rendered cs, Next_Tick rp] s)
           = unhandled s @ [e]
          \<and> (''terminal-'' @ ''remove_'' @ nm @ ''_'' @ show_nat now \<in> set cs
               \<and> (\<exists>status body. r_post rp = Responds status body)
               \<longrightarrow> e = Error ''Removal failed''))"
    unfolding ri rr 1(1) 2(1)
    using 1(2-) 2(2-) fi fr
    by (simp add: installTool_sync removeTool_sync)
qed

theorem action_failure_escapes_catch_witness:
  "next_tick (init_app no_faults) = []
   \<and> fetch_failed (r_post failing_replies)
   \<and> r_post failing_replies = Responds 500 None
   \<and> thrown (installTool ''nmap'' 123 (init_app no_faults)) = None
   \<and> notifications (run [User_installTool ''nmap'' 123, Dom_Rendered [''terminal-install_nmap_123''],
                         Next_Tick failing_replies] (init_app no_faults)) = []
   \<and> unhandled (run [User_installTool ''nmap'' 123, Dom_Rendered [''terminal-install_nmap_123''],
                     Next_Tick failing_replies] (init_app no_faults)) = [Error ''Installation failed'']
   \<and> thrown (removeTool ''nmap'' 123 (init_app no_faults)) = None
   \<and> notifications (run [User_removeTool ''nmap'' 123, Dom_Rendered [''terminal-remove_nmap_123''],
                         Next_Tick failing_replies] (init_app no_faults)) = []
   \<and> unhandled (run [User_removeTool ''nmap'' 123, Dom_Rendered [''terminal-remove_nmap_123''],
                     Next_Tick failing_replies] (init_app no_faults)) = [Error ''Removal failed'']"
proof -
  have p: "r_post failing_replies = Responds 500 None"
    by (simp add: failing_replies_def)
  have a: "next_tick (init_app no_faults) = [] \<and> fetch_failed (r_post failing_replies)"
    by (simp add: init_app_def p response_ok_def)
  have i: "notifications (init_app no_faults) = []" "unhandled (init_app no_faults) = []"
    by (simp_all add: init_app_def)
  have c: "''terminal-'' @ ''install_'' @ ''nmap'' @ ''_'' @ show_nat 123 \<in> set [''terminal-install_nmap_123'']"
    "\<exists>status body. r_post failing_replies = Responds status body"
    by (simp_all add: show_nat_123 p)
  have d: "''terminal-'' @ ''remove_'' @ ''nmap'' @ ''_'' @ show_nat 123 \<in> set [''terminal-remove_nmap_123'']"
    by (simp add: show_nat_123)
  show ?thesis
    using a p c d
      action_failure_escapes_catch [THEN mp, OF a, of "''nmap''" 123 "[''terminal-install_nmap_123'']"]
      action_failure_escapes_catch [THEN mp, OF a, of "''nmap''" 123 "[''terminal-remove_nmap_123'']"]
    by (auto simp: i)
qed

end
